theory Spec2Isabelle
  imports Main
begin

section \<open>Python values, errors and the library the client calls\<close>

text \<open>
  The client (\<^verbatim>\<open>sigenpy/sigen_api.py\<close>) works on decoded JSON: every value it touches is
  \<^verbatim>\<open>None\<close>, a bool, an int, a float, a str, a list or a dict with string keys. A float
  is \<open>FFinite m e\<close> for the value \<open>m * 2 ^ e\<close>, an infinity or \<^verbatim>\<open>nan\<close>; the client
  never computes with one, only its truth value matters (\<^verbatim>\<open>0.0\<close> is falsy, everything
  else, also \<^verbatim>\<open>nan\<close>, is truthy). A dict is an association list in insertion order; a
  lookup takes the first entry of a key, and a decoded JSON object has each key once.
\<close>

datatype pyfloat = FFinite int int | FInf bool | FNaN

datatype pyval =
    PNone
  | PBool bool
  | PInt int
  | PFloat pyfloat
  | PStr string
  | PList "pyval list"
  | PDict "(string \<times> pyval) list"

text \<open>
  The exceptions the client can raise or let through. \<open>RequestException\<close> stands for every
  failure of the transport: a network error, a status that \<^verbatim>\<open>raise_for_status\<close>
  rejects, or a body that \<^verbatim>\<open>response.json()\<close> cannot decode.
\<close>

datatype py_error =
    KeyError string
  | TypeError
  | AttributeError
  | ValueError string
  | OverflowError
  | JSONDecodeError
  | IndexError
  | RecursionError
  | RequestException

record datetime =
  year :: nat
  month :: nat
  day :: nat
  hour :: nat
  minute :: nat
  second :: nat
  microsecond :: nat
  utcoffset :: "int option"

text \<open>
  \<open>utcoffset\<close> is \<open>None\<close> for a naive \<^verbatim>\<open>datetime\<close>, and the offset from UTC in
  seconds for an aware one (offsets of whole seconds). \<open>valid_datetime\<close> gives the
  ranges the class \<^verbatim>\<open>datetime\<close> enforces on its fields.
\<close>

definition valid_datetime :: "datetime \<Rightarrow> bool" where
  "valid_datetime d \<longleftrightarrow>
     1 \<le> year d \<and> year d \<le> 9999 \<and> 1 \<le> month d \<and> month d \<le> 12 \<and> 1 \<le> day d \<and> day d \<le> 31 \<and>
     hour d < 24 \<and> minute d < 60 \<and> second d < 60 \<and> microsecond d < 1000000 \<and>
     (case utcoffset d of None \<Rightarrow> True | Some off \<Rightarrow> - 86400 < off \<and> off < 86400)"

text \<open>
  \<^verbatim>\<open>datetime.isoformat()\<close>: \<^verbatim>\<open>YYYY-MM-DDTHH:MM:SS\<close>, then \<^verbatim>\<open>.ffffff\<close> when the
  microseconds are not zero, then for an aware \<^verbatim>\<open>datetime\<close> the offset as
  \<^verbatim>\<open>+HH:MM\<close>, with \<^verbatim>\<open>:SS\<close> when its seconds are not zero. A naive
  \<^verbatim>\<open>datetime\<close> has no offset in its text.
\<close>

definition digit :: "nat \<Rightarrow> char" where
  "digit n = ''0123456789'' ! (n mod 10)"

definition pad2 :: "nat \<Rightarrow> string" where
  "pad2 n = [digit (n div 10), digit n]"

definition pad4 :: "nat \<Rightarrow> string" where
  "pad4 n = pad2 (n div 100) @ pad2 (n mod 100)"

definition pad6 :: "nat \<Rightarrow> string" where
  "pad6 n = pad2 (n div 10000) @ pad4 (n mod 10000)"

definition iso_seconds :: "datetime \<Rightarrow> string" where
  "iso_seconds d =
     pad4 (year d) @ ''-'' @ pad2 (month d) @ ''-'' @ pad2 (day d) @ ''T'' @
     pad2 (hour d) @ '':'' @ pad2 (minute d) @ '':'' @ pad2 (second d)"

definition iso_fraction :: "nat \<Rightarrow> string" where
  "iso_fraction us = (if us = 0 then [] else ''.'' @ pad6 us)"

definition iso_offset :: "int \<Rightarrow> string" where
  "iso_offset off =
     (let a = nat \<bar>off\<bar> in
      (if off < 0 then ''-'' else ''+'') @ pad2 (a div 3600) @ '':'' @ pad2 (a div 60 mod 60) @
      (if a mod 60 = 0 then [] else '':'' @ pad2 (a mod 60)))"

definition iso_utcoffset :: "int option \<Rightarrow> string" where
  "iso_utcoffset off = (case off of None \<Rightarrow> [] | Some m \<Rightarrow> iso_offset m)"

definition py_isoformat :: "datetime \<Rightarrow> string" where
  "py_isoformat d = iso_seconds d @ iso_fraction (microsecond d) @ iso_utcoffset (utcoffset d)"

text \<open>
  The functions of the Python standard library whose results the client only passes on
  are parameters of the model, so every theorem holds for each of their behaviours:
  \<^item> \<open>json_loads\<close> is \<^verbatim>\<open>json.loads\<close> on a str: the decoded value, or the exception
    it raises. That is \<^verbatim>\<open>json.JSONDecodeError\<close> for a text that is not a JSON document;
    for a JSON document it cannot convert it raises others, such as the plain
    \<^verbatim>\<open>ValueError\<close> for an integer of more than 4300 digits;
  \<^item> \<open>str_other\<close> is \<^verbatim>\<open>str()\<close> of a value that is not a str, as an f-string formats it;
  \<^item> \<open>float_of_str\<close> is \<^verbatim>\<open>float()\<close> on a str; \<open>None\<close> is \<^verbatim>\<open>ValueError\<close>;
  \<^item> \<open>float_of_int\<close> is the rounding of an int in the range of a float.

  \<^verbatim>\<open>RecursionError\<close> stands for the recursion limit \<^verbatim>\<open>json.loads\<close> reaches on a
  deeply nested document.
\<close>

record pylib =
  json_loads :: "string \<Rightarrow> py_error + pyval"
  str_other :: "pyval \<Rightarrow> string"
  float_of_str :: "string \<Rightarrow> pyfloat option"
  float_of_int :: "int \<Rightarrow> pyfloat"

fun float_truthy :: "pyfloat \<Rightarrow> bool" where
  "float_truthy (FFinite m e) = (m \<noteq> 0)"
| "float_truthy (FInf neg) = True"
| "float_truthy FNaN = True"

text \<open>Python's truth value of an object, as \<^verbatim>\<open>if x\<close>, \<^verbatim>\<open>not x\<close> and \<^verbatim>\<open>x or y\<close> use it.\<close>

fun truthy :: "pyval \<Rightarrow> bool" where
  "truthy PNone = False"
| "truthy (PBool b) = b"
| "truthy (PInt i) = (i \<noteq> 0)"
| "truthy (PFloat f) = float_truthy f"
| "truthy (PStr s) = (s \<noteq> [])"
| "truthy (PList xs) = (xs \<noteq> [])"
| "truthy (PDict kvs) = (kvs \<noteq> [])"

text \<open>\<^verbatim>\<open>x or y\<close>: the first operand when it is truthy, else the second.\<close>

definition py_or :: "pyval \<Rightarrow> pyval \<Rightarrow> pyval" where
  "py_or x y = (if truthy x then x else y)"

text \<open>\<^verbatim>\<open>x.get(key, default)\<close>: only a dict has the method.\<close>

fun py_get :: "pyval \<Rightarrow> string \<Rightarrow> pyval \<Rightarrow> py_error + pyval" where
  "py_get (PDict kvs) k dflt = Inr (case map_of kvs k of None \<Rightarrow> dflt | Some v \<Rightarrow> v)"
| "py_get v k dflt = Inl AttributeError"

text \<open>
  \<^verbatim>\<open>x[key]\<close> with a str key: a dict without the key raises \<^verbatim>\<open>KeyError\<close>; a str, a
  list and every value that cannot be subscripted raise \<^verbatim>\<open>TypeError\<close>.
\<close>

fun py_getitem_str :: "pyval \<Rightarrow> string \<Rightarrow> py_error + pyval" where
  "py_getitem_str (PDict kvs) k = (case map_of kvs k of None \<Rightarrow> Inl (KeyError k) | Some v \<Rightarrow> Inr v)"
| "py_getitem_str v k = Inl TypeError"

text \<open>An f-string field \<^verbatim>\<open>{x}\<close>: a str as it is, any other value through \<^verbatim>\<open>str()\<close>.\<close>

fun py_str :: "pylib \<Rightarrow> pyval \<Rightarrow> string" where
  "py_str lib (PStr s) = s"
| "py_str lib v = str_other lib v"

section \<open>The client\<close>

record session =
  base_url :: string
  username :: string
  password :: string
  access_token :: pyval
  system_id :: pyval
  inverter_serial_number :: pyval

text \<open>
  \<^verbatim>\<open>__init__\<close> (lines 15-29): the base URL loses its trailing slashes, nothing is
  cached yet.
\<close>

definition rstrip_slash :: "string \<Rightarrow> string" where
  "rstrip_slash u = rev (dropWhile (\<lambda>c. c = CHR ''/'') (rev u))"

definition init :: "string \<Rightarrow> string \<Rightarrow> string \<Rightarrow> session" where
  "init url user pass =
     \<lparr> base_url = rstrip_slash url, username = user, password = pass,
       access_token = PNone, system_id = PNone, inverter_serial_number = PNone \<rparr>"

text \<open>
  What \<^verbatim>\<open>requests.request\<close> is called with, and the keyword arguments a method hands
  to \<^verbatim>\<open>_make_request\<close>. The server is a parameter \<open>http\<close> of every operation: it maps
  the request to the decoded body, or to the exception of the transport.
\<close>

record request =
  req_method :: string
  req_url :: string
  req_headers :: "(string \<times> string) list option"
  req_params :: "(string \<times> pyval) list option"
  req_json :: "pyval option"

record kwargs =
  kw_headers :: "(string \<times> string) list option"
  kw_params :: "(string \<times> pyval) list option"
  kw_json :: "pyval option"

definition no_kwargs :: kwargs where
  "no_kwargs = \<lparr> kw_headers = None, kw_params = None, kw_json = None \<rparr>"

text \<open>\<^verbatim>\<open>d[k] = v\<close>: the entry of an old key is replaced in place, a new key goes last.\<close>

fun dict_set :: "('k \<times> 'v) list \<Rightarrow> 'k \<Rightarrow> 'v \<Rightarrow> ('k \<times> 'v) list" where
  "dict_set [] k v = [(k, v)]"
| "dict_set ((k', v') # kvs) k v =
     (if k' = k then (k, v) # kvs else (k', v') # dict_set kvs k v)"

text \<open>
  \<^verbatim>\<open>_make_request\<close> (lines 31-57), in its two steps: \<open>prepare_request\<close> is what
  lines 46-52 hand to \<^verbatim>\<open>requests.request\<close> (the URL, and the bearer token added to
  the headers when a token is held); \<open>make_request\<close> sends it (lines 54-57).
\<close>

definition prepare_request :: "pylib \<Rightarrow> session \<Rightarrow> string \<Rightarrow> string \<Rightarrow> kwargs \<Rightarrow> request" where
  "prepare_request lib s method endpoint kw =
     (let url = base_url s @ endpoint;
          kw' = (if truthy (access_token s)
                 then kw\<lparr> kw_headers :=
                        Some (dict_set (case kw_headers kw of None \<Rightarrow> [] | Some h \<Rightarrow> h)
                                ''Authorization'' (''Bearer '' @ py_str lib (access_token s))) \<rparr>
                 else kw)
      in \<lparr> req_method = method, req_url = url, req_headers = kw_headers kw',
           req_params = kw_params kw', req_json = kw_json kw' \<rparr>)"

definition make_request ::
  "pylib \<Rightarrow> (request \<Rightarrow> py_error + pyval) \<Rightarrow> session \<Rightarrow> string \<Rightarrow> string \<Rightarrow> kwargs
     \<Rightarrow> py_error + pyval" where
  "make_request lib http s method endpoint kw = http (prepare_request lib s method endpoint kw)"

text \<open>
  \<^verbatim>\<open>_parse_data_field\<close> (lines 59-76). Line 74 catches \<^verbatim>\<open>json.JSONDecodeError\<close> and
  nothing else, so every other exception of \<^verbatim>\<open>json.loads\<close> is raised to the caller.
\<close>

definition parse_data_field :: "pylib \<Rightarrow> pyval \<Rightarrow> py_error + pyval" where
  "parse_data_field lib response =
     (case py_get response ''data'' PNone of
        Inl e \<Rightarrow> Inl e
      | Inr data \<Rightarrow>
          (case data of
             PStr s \<Rightarrow>
               (case json_loads lib s of
                  Inr v \<Rightarrow> Inr v
                | Inl e \<Rightarrow> if e = JSONDecodeError then Inr data else Inl e)
           | _ \<Rightarrow> Inr data))"

text \<open>
  \<^verbatim>\<open>login\<close> (lines 80-101). An operation that writes to the client returns its result
  together with the client as it is afterwards, also when it raises.
\<close>

definition login ::
  "pylib \<Rightarrow> (request \<Rightarrow> py_error + pyval) \<Rightarrow> session \<Rightarrow> (py_error + pyval) \<times> session" where
  "login lib http s =
     (let payload = PDict [(''username'', PStr (username s)), (''password'', PStr (password s))];
          headers = [(''Content-Type'', ''application/json'')]
      in case make_request lib http s ''POST'' ''/openapi/auth/login/password''
                \<lparr> kw_headers = Some headers, kw_params = None, kw_json = Some payload \<rparr> of
           Inl e \<Rightarrow> (Inl e, s)
         | Inr response \<Rightarrow>
             (case parse_data_field lib response of
                Inl e \<Rightarrow> (Inl e, s)
              | Inr data \<Rightarrow>
                  (case py_getitem_str data ''accessToken'' of
                     Inl e \<Rightarrow> (Inl e, s)
                   | Inr token \<Rightarrow> (Inr token, s\<lparr> access_token := token \<rparr>))))"

text \<open>\<^verbatim>\<open>len(x)\<close> and \<^verbatim>\<open>x[0]\<close>, for the values \<^verbatim>\<open>get_systems\<close> may meet.\<close>

fun py_len :: "pyval \<Rightarrow> py_error + nat" where
  "py_len (PStr s) = Inr (length s)"
| "py_len (PList xs) = Inr (length xs)"
| "py_len (PDict kvs) = Inr (length kvs)"
| "py_len v = Inl TypeError"

fun py_getitem0 :: "pyval \<Rightarrow> py_error + pyval" where
  "py_getitem0 (PList []) = Inl IndexError"
| "py_getitem0 (PList (x # xs)) = Inr x"
| "py_getitem0 (PStr []) = Inl IndexError"
| "py_getitem0 (PStr (c # cs)) = Inr (PStr [c])"
| "py_getitem0 (PDict kvs) = Inl (KeyError ''0'')"
| "py_getitem0 v = Inl TypeError"

text \<open>\<^verbatim>\<open>get_systems\<close> (lines 105-120).\<close>

definition get_systems ::
  "pylib \<Rightarrow> (request \<Rightarrow> py_error + pyval) \<Rightarrow> session \<Rightarrow> (py_error + pyval) \<times> session" where
  "get_systems lib http s =
     (case make_request lib http s ''GET'' ''/openapi/system'' no_kwargs of
        Inl e \<Rightarrow> (Inl e, s)
      | Inr response \<Rightarrow>
          (case parse_data_field lib response of
             Inl e \<Rightarrow> (Inl e, s)
           | Inr systems \<Rightarrow>
               if truthy systems then
                 (case py_len systems of
                    Inl e \<Rightarrow> (Inl e, s)
                  | Inr n \<Rightarrow>
                      if n > 0 then
                        (case py_getitem0 systems of
                           Inl e \<Rightarrow> (Inl e, s)
                         | Inr first \<Rightarrow>
                             (case py_get first ''systemId'' PNone of
                                Inl e \<Rightarrow> (Inl e, s)
                              | Inr sid \<Rightarrow> (Inr systems, s\<lparr> system_id := sid \<rparr>)))
                      else (Inr systems, s))
               else (Inr systems, s)))"

text \<open>
  \<^verbatim>\<open>for x in v\<close>: a list gives its elements, a str its characters, a dict its keys;
  nothing else can be iterated.
\<close>

fun py_iter :: "pyval \<Rightarrow> py_error + pyval list" where
  "py_iter (PList xs) = Inr xs"
| "py_iter (PStr s) = Inr (map (\<lambda>c. PStr [c]) s)"
| "py_iter (PDict kvs) = Inr (map (\<lambda>kv. PStr (fst kv)) kvs)"
| "py_iter v = Inl TypeError"

text \<open>
  The body of the loop of \<^verbatim>\<open>get_devices\<close> (lines 144-152): the decoded device, and
  the client after the caching step. Here \<^verbatim>\<open>json.loads\<close> is not guarded.
\<close>

definition decode_device :: "pylib \<Rightarrow> pyval \<Rightarrow> py_error + pyval" where
  "decode_device lib device_string =
     (case device_string of
        PStr str \<Rightarrow> json_loads lib str
      | _ \<Rightarrow> Inr device_string)"

definition cache_inverter :: "session \<Rightarrow> pyval \<Rightarrow> py_error + session" where
  "cache_inverter s device =
     (case py_get device ''deviceType'' PNone of
        Inl e \<Rightarrow> Inl e
      | Inr ty \<Rightarrow>
          if ty = PStr ''Inverter'' \<and> \<not> truthy (inverter_serial_number s) then
            (case py_get device ''serialNumber'' PNone of
               Inl e \<Rightarrow> Inl e
             | Inr sn \<Rightarrow> Inr (s\<lparr> inverter_serial_number := sn \<rparr>))
          else Inr s)"

fun devices_loop ::
  "pylib \<Rightarrow> pyval list \<Rightarrow> pyval list \<Rightarrow> session \<Rightarrow> (py_error + pyval list) \<times> session" where
  "devices_loop lib [] devices s = (Inr devices, s)"
| "devices_loop lib (device_string # rest) devices s =
     (case decode_device lib device_string of
        Inl e \<Rightarrow> (Inl e, s)
      | Inr device \<Rightarrow>
          (case cache_inverter s device of
             Inl e \<Rightarrow> (Inl e, s)
           | Inr s' \<Rightarrow> devices_loop lib rest (devices @ [device]) s'))"

definition missing_system_id :: py_error where
  "missing_system_id = ValueError ''No system_id provided or cached. Call get_systems() first.''"

definition missing_device_serial :: py_error where
  "missing_device_serial =
     ValueError ''No device_serial_number provided or cached. Call get_devices() first.''"

text \<open>\<^verbatim>\<open>get_devices\<close> (lines 122-154). An argument left out is \<open>PNone\<close>.\<close>

definition get_devices ::
  "pylib \<Rightarrow> (request \<Rightarrow> py_error + pyval) \<Rightarrow> session \<Rightarrow> pyval
     \<Rightarrow> (py_error + pyval) \<times> session" where
  "get_devices lib http s system_id_arg =
     (let sys_id = py_or system_id_arg (system_id s) in
      if \<not> truthy sys_id then (Inl missing_system_id, s)
      else
        (case make_request lib http s ''GET''
                (''/openapi/system/'' @ py_str lib sys_id @ ''/devices'') no_kwargs of
           Inl e \<Rightarrow> (Inl e, s)
         | Inr response \<Rightarrow>
             (case py_get response ''data'' (PList []) of
                Inl e \<Rightarrow> (Inl e, s)
              | Inr devices_data \<Rightarrow>
                  (case py_iter devices_data of
                     Inl e \<Rightarrow> (Inl e, s)
                   | Inr items \<Rightarrow>
                       (case devices_loop lib items [] s of
                          (Inl e, s') \<Rightarrow> (Inl e, s')
                        | (Inr devices, s') \<Rightarrow> (Inr (PList devices), s'))))))"

text \<open>
  The realtime operations (lines 158-217) read the client and leave it as it is, so
  they return the result alone.
\<close>

definition get_system_summary ::
  "pylib \<Rightarrow> (request \<Rightarrow> py_error + pyval) \<Rightarrow> session \<Rightarrow> pyval \<Rightarrow> py_error + pyval" where
  "get_system_summary lib http s system_id_arg =
     (let sys_id = py_or system_id_arg (system_id s) in
      if \<not> truthy sys_id then Inl missing_system_id
      else
        (case make_request lib http s ''GET''
                (''/openapi/systems/'' @ py_str lib sys_id @ ''/summary'') no_kwargs of
           Inl e \<Rightarrow> Inl e
         | Inr response \<Rightarrow> parse_data_field lib response))"

definition get_system_energy_flow ::
  "pylib \<Rightarrow> (request \<Rightarrow> py_error + pyval) \<Rightarrow> session \<Rightarrow> pyval \<Rightarrow> py_error + pyval" where
  "get_system_energy_flow lib http s system_id_arg =
     (let sys_id = py_or system_id_arg (system_id s) in
      if \<not> truthy sys_id then Inl missing_system_id
      else
        (case make_request lib http s ''GET''
                (''/openapi/systems/'' @ py_str lib sys_id @ ''/energyFlow'') no_kwargs of
           Inl e \<Rightarrow> Inl e
         | Inr response \<Rightarrow> parse_data_field lib response))"

definition get_device_realtime_info ::
  "pylib \<Rightarrow> (request \<Rightarrow> py_error + pyval) \<Rightarrow> session \<Rightarrow> pyval \<Rightarrow> pyval
     \<Rightarrow> py_error + pyval" where
  "get_device_realtime_info lib http s device_serial_number_arg system_id_arg =
     (let sys_id = py_or system_id_arg (system_id s);
          dev_sn = py_or device_serial_number_arg (inverter_serial_number s) in
      if \<not> truthy sys_id then Inl missing_system_id
      else if \<not> truthy dev_sn then Inl missing_device_serial
      else
        (case make_request lib http s ''GET''
                (''/openapi/systems/'' @ py_str lib sys_id @ ''/devices/'' @ py_str lib dev_sn
                   @ ''/realtimeInfo'') no_kwargs of
           Inl e \<Rightarrow> Inl e
         | Inr response \<Rightarrow> parse_data_field lib response))"

text \<open>
  \<^verbatim>\<open>get_system_history\<close> (lines 221-254). A \<^verbatim>\<open>datetime\<close> is always truthy, so a time
  is sent exactly when it is given; the interval is sent when it is truthy.
\<close>

definition history_params ::
  "datetime option \<Rightarrow> datetime option \<Rightarrow> pyval \<Rightarrow> (string \<times> pyval) list" where
  "history_params start_time end_time interval =
     (let params = [];
          params = (case start_time of
                      None \<Rightarrow> params
                    | Some t \<Rightarrow> dict_set params ''startTime'' (PStr (py_isoformat t)));
          params = (case end_time of
                      None \<Rightarrow> params
                    | Some t \<Rightarrow> dict_set params ''endTime'' (PStr (py_isoformat t)));
          params = (if truthy interval then dict_set params ''interval'' interval else params)
      in params)"

definition get_system_history ::
  "pylib \<Rightarrow> (request \<Rightarrow> py_error + pyval) \<Rightarrow> session \<Rightarrow> pyval \<Rightarrow> datetime option
     \<Rightarrow> datetime option \<Rightarrow> pyval \<Rightarrow> py_error + pyval" where
  "get_system_history lib http s system_id_arg start_time end_time interval =
     (let sys_id = py_or system_id_arg (system_id s) in
      if \<not> truthy sys_id then Inl missing_system_id
      else
        (case make_request lib http s ''GET''
                (''/openapi/systems/'' @ py_str lib sys_id @ ''/history'')
                (no_kwargs\<lparr> kw_params := Some (history_params start_time end_time interval) \<rparr>) of
           Inl e \<Rightarrow> Inl e
         | Inr response \<Rightarrow> parse_data_field lib response))"

text \<open>
  \<^verbatim>\<open>initialize\<close> (lines 258-269). Each call may answer differently, so each has its
  own server.
\<close>

definition initialize ::
  "pylib \<Rightarrow> (request \<Rightarrow> py_error + pyval) \<Rightarrow> (request \<Rightarrow> py_error + pyval)
     \<Rightarrow> (request \<Rightarrow> py_error + pyval) \<Rightarrow> session \<Rightarrow> (py_error + unit) \<times> session" where
  "initialize lib http1 http2 http3 s =
     (case login lib http1 s of
        (Inl e, s1) \<Rightarrow> (Inl e, s1)
      | (Inr token, s1) \<Rightarrow>
          (case get_systems lib http2 s1 of
             (Inl e, s2) \<Rightarrow> (Inl e, s2)
           | (Inr systems, s2) \<Rightarrow>
               if truthy (system_id s2) then
                 (case get_devices lib http3 s2 PNone of
                    (Inl e, s3) \<Rightarrow> (Inl e, s3)
                  | (Inr devices, s3) \<Rightarrow> (Inr (), s3))
               else (Inr (), s2)))"

text \<open>
  \<^verbatim>\<open>key.lower()\<close> and \<^verbatim>\<open>sub in key\<close>. A str is the list of its bytes; \<open>lower\<close>
  changes the letters A to Z (codes 65 to 90) to the code 32 higher, which sets the bit
  of value 32; no other character lowers to a letter of \<^verbatim>\<open>power\<close> or
  \<^verbatim>\<open>watt\<close>.
\<close>

definition lower_char :: "char \<Rightarrow> char" where
  "lower_char c =
     (if (65::nat) \<le> of_char c \<and> of_char c \<le> (90::nat)
      then (case c of Char b0 b1 b2 b3 b4 b5 b6 b7 \<Rightarrow> Char b0 b1 b2 b3 b4 True b6 b7)
      else c)"

definition py_lower :: "string \<Rightarrow> string" where
  "py_lower s = map lower_char s"

fun str_contains :: "string \<Rightarrow> string \<Rightarrow> bool" where
  "str_contains sub [] = (sub = [])"
| "str_contains sub (c # cs) = (take (length sub) (c # cs) = sub \<or> str_contains sub cs)"

text \<open>
  \<^verbatim>\<open>float(x)\<close>: a float as it is; an int or a bool rounded, unless the int is outside
  the range of a float (the nearest float would be \<open>2 ^ 1024\<close>), which raises
  \<^verbatim>\<open>OverflowError\<close>; a str parsed or \<^verbatim>\<open>ValueError\<close>; \<^verbatim>\<open>TypeError\<close> for
  \<^verbatim>\<open>None\<close>, a list and a dict.
\<close>

fun py_float :: "pylib \<Rightarrow> pyval \<Rightarrow> py_error + pyfloat" where
  "py_float lib (PFloat f) = Inr f"
| "py_float lib (PInt i) =
     (if \<bar>i\<bar> \<ge> 2 ^ 1024 - 2 ^ 970 then Inl OverflowError else Inr (float_of_int lib i))"
| "py_float lib (PBool b) = Inr (float_of_int lib (if b then 1 else 0))"
| "py_float lib (PStr s) =
     (case float_of_str lib s of
        None \<Rightarrow> Inl (ValueError ''could not convert string to float'')
      | Some f \<Rightarrow> Inr f)"
| "py_float lib v = Inl TypeError"

text \<open>
  \<^verbatim>\<open>except (ValueError, TypeError)\<close>: \<^verbatim>\<open>JSONDecodeError\<close> is a subclass of
  \<^verbatim>\<open>ValueError\<close>; \<^verbatim>\<open>OverflowError\<close> is an \<^verbatim>\<open>ArithmeticError\<close> and is not caught.
\<close>

fun value_or_type_error :: "py_error \<Rightarrow> bool" where
  "value_or_type_error (ValueError msg) = True"
| "value_or_type_error TypeError = True"
| "value_or_type_error JSONDecodeError = True"
| "value_or_type_error e = False"

text \<open>\<^verbatim>\<open>get_current_power_flow\<close> (lines 271-292).\<close>

fun power_flow_loop ::
  "pylib \<Rightarrow> (string \<times> pyval) list \<Rightarrow> (string \<times> pyval) list
     \<Rightarrow> py_error + (string \<times> pyval) list" where
  "power_flow_loop lib [] power_flow = Inr power_flow"
| "power_flow_loop lib ((key, val) # rest) power_flow =
     (if str_contains ''power'' (py_lower key) \<or> str_contains ''watt'' (py_lower key) then
        (case py_float lib val of
           Inr f \<Rightarrow> power_flow_loop lib rest (dict_set power_flow key (PFloat f))
         | Inl e \<Rightarrow>
             if value_or_type_error e
             then power_flow_loop lib rest (dict_set power_flow key val)
             else Inl e)
      else power_flow_loop lib rest power_flow)"

definition py_items :: "pyval \<Rightarrow> py_error + (string \<times> pyval) list" where
  "py_items v = (case v of PDict kvs \<Rightarrow> Inr kvs | _ \<Rightarrow> Inl AttributeError)"

definition get_current_power_flow ::
  "pylib \<Rightarrow> (request \<Rightarrow> py_error + pyval) \<Rightarrow> session \<Rightarrow> pyval \<Rightarrow> py_error + pyval" where
  "get_current_power_flow lib http s system_id_arg =
     (case get_system_energy_flow lib http s system_id_arg of
        Inl e \<Rightarrow> Inl e
      | Inr energy_flow \<Rightarrow>
          (case py_items energy_flow of
             Inl e \<Rightarrow> Inl e
           | Inr items \<Rightarrow>
               (case power_flow_loop lib items [] of
                  Inl e \<Rightarrow> Inl e
                | Inr power_flow \<Rightarrow> Inr (PDict power_flow))))"

section \<open>A library and responses for the closed examples\<close>

text \<open>
  A decoder for the examples: the documents the examples use, the \<^verbatim>\<open>ValueError\<close> of
  \<^verbatim>\<open>json.loads\<close> for an integer of more than 4300 digits, and
  \<^verbatim>\<open>json.JSONDecodeError\<close> for every other text.
\<close>

definition is_digit :: "char \<Rightarrow> bool" where
  "is_digit c \<longleftrightarrow> (48::nat) \<le> of_char c \<and> of_char c \<le> (57::nat)"

definition sample_loads :: "string \<Rightarrow> py_error + pyval" where
  \<open>sample_loads s =
     (if s = ''{"accessToken":"abc123"}'' then Inr (PDict [(''accessToken'', PStr ''abc123'')])
      else if s = ''{"deviceType":"Inverter","serialNumber":"INV1"}''
        then Inr (PDict [(''deviceType'', PStr ''Inverter''), (''serialNumber'', PStr ''INV1'')])
      else if s = ''{"deviceType":"Battery","serialNumber":"BAT1"}''
        then Inr (PDict [(''deviceType'', PStr ''Battery''), (''serialNumber'', PStr ''BAT1'')])
      else if s = ''[]'' then Inr (PList [])
      else if length s > 4300 \<and> list_all is_digit s
        then Inl (ValueError ''Exceeds the limit (4300 digits) for integer string conversion'')
      else Inl JSONDecodeError)\<close>

definition sample_lib :: pylib where
  "sample_lib = \<lparr> json_loads = sample_loads, str_other = (\<lambda>v. ''?''),
     float_of_str = (\<lambda>s. if s = ''1500'' then Some (FFinite 1500 0) else None),
     float_of_int = (\<lambda>i. FFinite i 0) \<rparr>"

definition sample_session :: session where
  "sample_session = init ''https://api-aus.sigencloud.com/'' ''user'' ''secret''"

definition sample_start :: datetime where
  "sample_start = \<lparr> year = 2025, month = 10, day = 1, hour = 0, minute = 0, second = 0,
     microsecond = 0, utcoffset = Some 36000 \<rparr>"

definition sample_end :: datetime where
  "sample_end = \<lparr> year = 2025, month = 10, day = 2, hour = 0, minute = 0, second = 0,
     microsecond = 0, utcoffset = Some 36000 \<rparr>"

definition sample_naive :: datetime where
  "sample_naive = \<lparr> year = 2025, month = 10, day = 1, hour = 0, minute = 0, second = 0,
     microsecond = 0, utcoffset = None \<rparr>"

section \<open>Unwrapping the envelope\<close>

lemma parse_data_field_cases:
  "(map_of env ''data'' = None \<longrightarrow> parse_data_field lib (PDict env) = Inr PNone) \<and>
   (map_of env ''data'' = Some (PStr t) \<and> json_loads lib t = Inr v
      \<longrightarrow> parse_data_field lib (PDict env) = Inr v) \<and>
   (map_of env ''data'' = Some (PStr t) \<and> json_loads lib t = Inl JSONDecodeError
      \<longrightarrow> parse_data_field lib (PDict env) = Inr (PStr t)) \<and>
   (map_of env ''data'' = Some (PStr t) \<and> json_loads lib t = Inl e \<and> e \<noteq> JSONDecodeError
      \<longrightarrow> parse_data_field lib (PDict env) = Inl e) \<and>
   (map_of env ''data'' = Some d \<and> (\<forall>u. d \<noteq> PStr u)
      \<longrightarrow> parse_data_field lib (PDict env) = Inr d)"
proof -
  have absent: "map_of env ''data'' = None \<longrightarrow> parse_data_field lib (PDict env) = Inr PNone"
    by (simp add: parse_data_field_def)
  have decoded: "map_of env ''data'' = Some (PStr t) \<and> json_loads lib t = Inr v
      \<longrightarrow> parse_data_field lib (PDict env) = Inr v"
    by (simp add: parse_data_field_def)
  have raw: "map_of env ''data'' = Some (PStr t) \<and> json_loads lib t = Inl JSONDecodeError
      \<longrightarrow> parse_data_field lib (PDict env) = Inr (PStr t)"
    by (simp add: parse_data_field_def)
  have escaped: "map_of env ''data'' = Some (PStr t) \<and> json_loads lib t = Inl e \<and> e \<noteq> JSONDecodeError
      \<longrightarrow> parse_data_field lib (PDict env) = Inl e"
    by (simp add: parse_data_field_def)
  have structured: "map_of env ''data'' = Some d \<and> (\<forall>u. d \<noteq> PStr u)
      \<longrightarrow> parse_data_field lib (PDict env) = Inr d"
    by (cases d) (simp_all add: parse_data_field_def)
  from absent decoded raw escaped structured show ?thesis by blast
qed

lemma parse_data_field_examples:
  \<open>parse_data_field sample_lib (PDict [(''code'', PInt 0), (''data'', PStr ''{"accessToken":"abc123"}'')])
       = Inr (PDict [(''accessToken'', PStr ''abc123'')]) \<and>
   parse_data_field sample_lib (PDict [(''code'', PInt 0), (''data'', PStr ''OK'')]) = Inr (PStr ''OK'') \<and>
   parse_data_field sample_lib (PDict [(''code'', PInt 0), (''data'', PList [PInt 1])]) = Inr (PList [PInt 1])\<close>
  by (simp add: parse_data_field_def sample_lib_def sample_loads_def)

lemma sample_loads_long_integer:
  "sample_loads (replicate 4301 CHR ''1'')
     = Inl (ValueError ''Exceeds the limit (4300 digits) for integer string conversion'')"
proof -
  have other: "replicate 4301 CHR ''1'' \<noteq> s" if "length s < 4301" for s
    using that by (auto dest: arg_cong [where f = length])
  have digits: "list_all is_digit (replicate 4301 CHR ''1'')"
    by (simp add: list_all_iff is_digit_def)
  show ?thesis
    unfolding sample_loads_def by (simp add: other digits)
qed

text \<open>
  Claim C2. For an envelope, \<^verbatim>\<open>_parse_data_field\<close> returns a \<^verbatim>\<open>data\<close> field that is not
  a str as it is, the decoded value of a str that \<^verbatim>\<open>json.loads\<close> decodes, and the raw
  str when \<^verbatim>\<open>json.loads\<close> raises \<^verbatim>\<open>json.JSONDecodeError\<close>
  (\<open>parse_data_field_cases\<close>). The code departs from the claim, which has the secondary
  decode never raise: line 74 catches \<^verbatim>\<open>json.JSONDecodeError\<close> alone, so for a
  \<^verbatim>\<open>data\<close> field of 4301 digits the \<^verbatim>\<open>ValueError\<close> of \<^verbatim>\<open>json.loads\<close> is raised
  and the raw str is not returned.
\<close>

theorem parse_data_field_decoder_error_escapes:
  "parse_data_field sample_lib (PDict [(''code'', PInt 0), (''data'', PStr (replicate 4301 CHR ''1''))])
     = Inl (ValueError ''Exceeds the limit (4300 digits) for integer string conversion'')"
  by (simp add: parse_data_field_def sample_lib_def sample_loads_long_integer)

section \<open>Login\<close>

lemma make_request_const: "make_request lib (\<lambda>r. x) s m e kw = x"
  by (simp add: make_request_def)

text \<open>
  Claim C1, as the specification states it, fails: a login response whose decoded data is
  a mapping without \<^verbatim>\<open>accessToken\<close> makes \<^verbatim>\<open>login\<close> raise the raw
  \<^verbatim>\<open>KeyError\<close> of the lookup in line 100; the client defines no error type of
  its own.
\<close>

theorem login_missing_token_counterexample:
  "login sample_lib (\<lambda>r. Inr (PDict [(''code'', PInt 0), (''msg'', PStr ''success''), (''data'', PDict [(''expiresIn'', PInt 3600)])]))
      (init ''https://api-aus.sigencloud.com/'' ''user'' ''secret'')
   = (Inl (KeyError ''accessToken''), init ''https://api-aus.sigencloud.com/'' ''user'' ''secret'')"
  by (simp add: login_def make_request_def parse_data_field_def)

text \<open>
  Claim C1, amended. When the decoded data of the login response is a mapping without an
  \<^verbatim>\<open>accessToken\<close> entry, \<^verbatim>\<open>login\<close> raises \<^verbatim>\<open>KeyError('accessToken')\<close>, and
  \<^verbatim>\<open>TypeError\<close> when the decoded data is not a mapping; the client is left as it was.
  When the entry is present, \<^verbatim>\<open>login\<close> stores the token in the client and returns it.
\<close>

theorem login_token:
  "parse_data_field lib response = Inr data \<Longrightarrow>
   (data = PDict kvs \<and> map_of kvs ''accessToken'' = None
      \<longrightarrow> login lib (\<lambda>r. Inr response) s = (Inl (KeyError ''accessToken''), s)) \<and>
   ((\<forall>kvs. data \<noteq> PDict kvs)
      \<longrightarrow> login lib (\<lambda>r. Inr response) s = (Inl TypeError, s)) \<and>
   (data = PDict kvs \<and> map_of kvs ''accessToken'' = Some token
      \<longrightarrow> login lib (\<lambda>r. Inr response) s = (Inr token, s\<lparr> access_token := token \<rparr>))"
  by (cases data) (simp_all add: login_def make_request_def)

theorem login_token_witness:
  \<open>parse_data_field sample_lib (PDict [(''code'', PInt 0), (''data'', PStr ''{"accessToken":"abc123"}'')])
     = Inr (PDict [(''accessToken'', PStr ''abc123'')]) \<and>
   map_of [(''accessToken'', PStr ''abc123'')] ''accessToken'' = Some (PStr ''abc123'') \<and>
   login sample_lib (\<lambda>r. Inr (PDict [(''code'', PInt 0), (''data'', PStr ''{"accessToken":"abc123"}'')])) sample_session
     = (Inr (PStr ''abc123''), sample_session\<lparr> access_token := PStr ''abc123'' \<rparr>) \<and>
   parse_data_field sample_lib (PDict [(''code'', PInt 0), (''data'', PDict [(''expiresIn'', PInt 3600)])])
     = Inr (PDict [(''expiresIn'', PInt 3600)]) \<and>
   map_of [(''expiresIn'', PInt 3600)] ''accessToken'' = None \<and>
   login sample_lib (\<lambda>r. Inr (PDict [(''code'', PInt 0), (''data'', PDict [(''expiresIn'', PInt 3600)])])) sample_session
     = (Inl (KeyError ''accessToken''), sample_session) \<and>
   parse_data_field sample_lib (PDict [(''code'', PInt 1), (''data'', PNone)]) = Inr PNone \<and>
   (\<forall>kvs. PNone \<noteq> PDict kvs) \<and>
   login sample_lib (\<lambda>r. Inr (PDict [(''code'', PInt 1), (''data'', PNone)])) sample_session
     = (Inl TypeError, sample_session)\<close>
proof -
  have a: \<open>parse_data_field sample_lib (PDict [(''code'', PInt 0), (''data'', PStr ''{"accessToken":"abc123"}'')])
     = Inr (PDict [(''accessToken'', PStr ''abc123'')])\<close>
    by (simp add: parse_data_field_def sample_lib_def sample_loads_def)
  have a': "map_of [(''accessToken'', PStr ''abc123'')] ''accessToken'' = Some (PStr ''abc123'')" by simp
  have b: "parse_data_field sample_lib (PDict [(''code'', PInt 0), (''data'', PDict [(''expiresIn'', PInt 3600)])])
     = Inr (PDict [(''expiresIn'', PInt 3600)])"
    by (simp add: parse_data_field_def)
  have b': "map_of [(''expiresIn'', PInt 3600)] ''accessToken'' = None" by simp
  have c: "parse_data_field sample_lib (PDict [(''code'', PInt 1), (''data'', PNone)]) = Inr PNone"
    by (simp add: parse_data_field_def)
  have c': "\<forall>kvs. PNone \<noteq> PDict kvs" by simp
  from a a' b b' c c'
    login_token [OF a, where kvs = "[(''accessToken'', PStr ''abc123'')]" and token = "PStr ''abc123''" and s = sample_session]
    login_token [OF b, where kvs = "[(''expiresIn'', PInt 3600)]" and s = sample_session]
    login_token [OF c, where s = sample_session]
  show ?thesis by blast
qed

section \<open>The status code of the envelope\<close>

text \<open>
  Claim C3, as the specification states it, fails: for an envelope with the status code
  424 \<^verbatim>\<open>get_system_summary\<close> returns the unwrapped \<^verbatim>\<open>data\<close> field, here
  \<^verbatim>\<open>None\<close>; the status code and the message do not reach the caller.
\<close>

theorem get_system_summary_drops_status_counterexample:
  "get_system_summary sample_lib
      (\<lambda>r. Inr (PDict [(''code'', PInt 424), (''msg'', PStr ''API limit reached''), (''data'', PNone)]))
      ((init ''https://api-aus.sigencloud.com'' ''user'' ''secret'')\<lparr> system_id := PStr ''S1'' \<rparr>) PNone
   = Inr PNone"
  by (simp add: get_system_summary_def make_request_def parse_data_field_def py_or_def)

lemma parse_data_field_data_only:
  "map_of env ''data'' = map_of env' ''data'' \<Longrightarrow>
   parse_data_field lib (PDict env) = parse_data_field lib (PDict env')"
  by (simp add: parse_data_field_def)

lemma parse_data_field_decoded:
  "\<forall>t e. map_of env ''data'' = Some (PStr t) \<and> json_loads lib t = Inl e \<longrightarrow> e = JSONDecodeError \<Longrightarrow>
   \<exists>v. parse_data_field lib (PDict env) = Inr v"
  by (auto simp: parse_data_field_def split: option.split pyval.split sum.split)

text \<open>
  Claim C3, amended. For every well-formed envelope, whatever its status code, the client
  does not turn the status into a thrown error and does not surface it either: every
  operation reads the \<^verbatim>\<open>data\<close> field alone, so two envelopes with the same
  \<^verbatim>\<open>data\<close> give the same result and leave the same client, whatever their status codes
  and messages; the telemetry operations return the unwrapped \<^verbatim>\<open>data\<close> field, which
  is a value wherever the secondary decode raises nothing but
  \<^verbatim>\<open>json.JSONDecodeError\<close>. The full envelope is the result of the transport step
  \<^verbatim>\<open>_make_request\<close> only.
\<close>

theorem operations_read_data_only:
  "map_of env ''data'' = map_of env' ''data'' \<Longrightarrow>
   make_request lib (\<lambda>r. Inr (PDict env)) s verb endpoint kw = Inr (PDict env) \<and>
   login lib (\<lambda>r. Inr (PDict env)) s = login lib (\<lambda>r. Inr (PDict env')) s \<and>
   get_systems lib (\<lambda>r. Inr (PDict env)) s = get_systems lib (\<lambda>r. Inr (PDict env')) s \<and>
   get_devices lib (\<lambda>r. Inr (PDict env)) s arg = get_devices lib (\<lambda>r. Inr (PDict env')) s arg \<and>
   get_system_summary lib (\<lambda>r. Inr (PDict env)) s arg
     = get_system_summary lib (\<lambda>r. Inr (PDict env')) s arg \<and>
   get_system_energy_flow lib (\<lambda>r. Inr (PDict env)) s arg
     = get_system_energy_flow lib (\<lambda>r. Inr (PDict env')) s arg \<and>
   get_device_realtime_info lib (\<lambda>r. Inr (PDict env)) s dev_arg arg
     = get_device_realtime_info lib (\<lambda>r. Inr (PDict env')) s dev_arg arg \<and>
   get_system_history lib (\<lambda>r. Inr (PDict env)) s arg start_time end_time interval
     = get_system_history lib (\<lambda>r. Inr (PDict env')) s arg start_time end_time interval \<and>
   get_current_power_flow lib (\<lambda>r. Inr (PDict env)) s arg
     = get_current_power_flow lib (\<lambda>r. Inr (PDict env')) s arg \<and>
   (truthy (py_or arg (system_id s)) \<longrightarrow>
      get_system_summary lib (\<lambda>r. Inr (PDict env)) s arg = parse_data_field lib (PDict env) \<and>
      get_system_energy_flow lib (\<lambda>r. Inr (PDict env)) s arg = parse_data_field lib (PDict env) \<and>
      get_system_history lib (\<lambda>r. Inr (PDict env)) s arg start_time end_time interval
        = parse_data_field lib (PDict env)) \<and>
   (truthy (py_or arg (system_id s)) \<and> truthy (py_or dev_arg (inverter_serial_number s)) \<longrightarrow>
      get_device_realtime_info lib (\<lambda>r. Inr (PDict env)) s dev_arg arg
        = parse_data_field lib (PDict env)) \<and>
   ((\<forall>t e. map_of env ''data'' = Some (PStr t) \<and> json_loads lib t = Inl e \<longrightarrow> e = JSONDecodeError)
      \<longrightarrow> (\<exists>v. parse_data_field lib (PDict env) = Inr v))"
proof -
  assume same: "map_of env ''data'' = map_of env' ''data''"
  note pd = parse_data_field_data_only [OF same, of lib]
  have sent: "make_request lib (\<lambda>r. Inr (PDict env)) s verb endpoint kw = Inr (PDict env)"
    by (rule make_request_const)
  have lg: "login lib (\<lambda>r. Inr (PDict env)) s = login lib (\<lambda>r. Inr (PDict env')) s"
    by (simp add: login_def make_request_const pd)
  have gs: "get_systems lib (\<lambda>r. Inr (PDict env)) s = get_systems lib (\<lambda>r. Inr (PDict env')) s"
    by (simp add: get_systems_def make_request_const pd)
  have gd: "get_devices lib (\<lambda>r. Inr (PDict env)) s arg = get_devices lib (\<lambda>r. Inr (PDict env')) s arg"
    by (simp add: get_devices_def Let_def make_request_const same)
  have su: "get_system_summary lib (\<lambda>r. Inr (PDict env)) s arg
     = get_system_summary lib (\<lambda>r. Inr (PDict env')) s arg"
    by (simp add: get_system_summary_def Let_def make_request_const pd)
  have ef: "get_system_energy_flow lib (\<lambda>r. Inr (PDict env)) s arg
     = get_system_energy_flow lib (\<lambda>r. Inr (PDict env')) s arg"
    by (simp add: get_system_energy_flow_def Let_def make_request_const pd)
  have rt: "get_device_realtime_info lib (\<lambda>r. Inr (PDict env)) s dev_arg arg
     = get_device_realtime_info lib (\<lambda>r. Inr (PDict env')) s dev_arg arg"
    by (simp add: get_device_realtime_info_def Let_def make_request_const pd)
  have hi: "get_system_history lib (\<lambda>r. Inr (PDict env)) s arg start_time end_time interval
     = get_system_history lib (\<lambda>r. Inr (PDict env')) s arg start_time end_time interval"
    by (simp add: get_system_history_def Let_def make_request_const pd)
  have pf: "get_current_power_flow lib (\<lambda>r. Inr (PDict env)) s arg
     = get_current_power_flow lib (\<lambda>r. Inr (PDict env')) s arg"
    by (simp add: get_current_power_flow_def ef)
  have un: "truthy (py_or arg (system_id s)) \<longrightarrow>
      get_system_summary lib (\<lambda>r. Inr (PDict env)) s arg = parse_data_field lib (PDict env) \<and>
      get_system_energy_flow lib (\<lambda>r. Inr (PDict env)) s arg = parse_data_field lib (PDict env) \<and>
      get_system_history lib (\<lambda>r. Inr (PDict env)) s arg start_time end_time interval
        = parse_data_field lib (PDict env)"
    by (simp add: get_system_summary_def get_system_energy_flow_def get_system_history_def
        Let_def make_request_const)
  have un': "truthy (py_or arg (system_id s)) \<and> truthy (py_or dev_arg (inverter_serial_number s)) \<longrightarrow>
      get_device_realtime_info lib (\<lambda>r. Inr (PDict env)) s dev_arg arg
        = parse_data_field lib (PDict env)"
    by (simp add: get_device_realtime_info_def Let_def make_request_const)
  have val: "(\<forall>t e. map_of env ''data'' = Some (PStr t) \<and> json_loads lib t = Inl e \<longrightarrow> e = JSONDecodeError)
      \<longrightarrow> (\<exists>v. parse_data_field lib (PDict env) = Inr v)"
    using parse_data_field_decoded [of env lib] by blast
  from sent lg gs gd su ef rt hi pf un un' val show ?thesis by blast
qed

theorem operations_read_data_only_witness:
  "map_of [(''code'', PInt 424), (''msg'', PStr ''API limit reached''), (''data'', PDict [(''pvPower'', PInt 5)])] ''data''
     = map_of [(''code'', PInt 0), (''msg'', PStr ''success''), (''data'', PDict [(''pvPower'', PInt 5)])] ''data'' \<and>
   truthy (py_or PNone (system_id (sample_session\<lparr> system_id := PStr ''S1'' \<rparr>))) \<and>
   get_system_summary sample_lib (\<lambda>r. Inr (PDict [(''code'', PInt 424), (''msg'', PStr ''API limit reached''), (''data'', PDict [(''pvPower'', PInt 5)])])) (sample_session\<lparr> system_id := PStr ''S1'' \<rparr>) PNone
     = Inr (PDict [(''pvPower'', PInt 5)]) \<and>
   get_system_summary sample_lib (\<lambda>r. Inr (PDict [(''code'', PInt 0), (''msg'', PStr ''success''), (''data'', PDict [(''pvPower'', PInt 5)])])) (sample_session\<lparr> system_id := PStr ''S1'' \<rparr>) PNone
     = Inr (PDict [(''pvPower'', PInt 5)]) \<and>
   map_of [(''code'', PInt 424), (''msg'', PStr ''API limit reached''), (''data'', PStr ''OK'')] ''data'' = Some (PStr ''OK'') \<and>
   json_loads sample_lib ''OK'' = Inl JSONDecodeError \<and>
   get_system_summary sample_lib (\<lambda>r. Inr (PDict [(''code'', PInt 424), (''msg'', PStr ''API limit reached''), (''data'', PStr ''OK'')])) (sample_session\<lparr> system_id := PStr ''S1'' \<rparr>) PNone = Inr (PStr ''OK'')"
proof -
  have same: "map_of [(''code'', PInt 424), (''msg'', PStr ''API limit reached''), (''data'', PDict [(''pvPower'', PInt 5)])] ''data''
     = map_of [(''code'', PInt 0), (''msg'', PStr ''success''), (''data'', PDict [(''pvPower'', PInt 5)])] ''data''"
    by simp
  have id: "truthy (py_or PNone (system_id (sample_session\<lparr> system_id := PStr ''S1'' \<rparr>)))"
    by (simp add: py_or_def)
  have raw: "\<forall>t e. map_of [(''code'', PInt 424), (''msg'', PStr ''API limit reached''), (''data'', PStr ''OK'')] ''data'' = Some (PStr t) \<and> json_loads sample_lib t = Inl e
      \<longrightarrow> e = JSONDecodeError"
    by (simp add: sample_lib_def sample_loads_def)
  note inst = operations_read_data_only [OF same, where lib = sample_lib and s = "(sample_session\<lparr> system_id := PStr ''S1'' \<rparr>)" and arg = PNone
      and verb = "''GET''" and endpoint = "[]" and kw = no_kwargs and dev_arg = PNone
      and start_time = None and end_time = None and interval = PNone]
  from inst id have "get_system_summary sample_lib (\<lambda>r. Inr (PDict [(''code'', PInt 424), (''msg'', PStr ''API limit reached''), (''data'', PDict [(''pvPower'', PInt 5)])])) (sample_session\<lparr> system_id := PStr ''S1'' \<rparr>) PNone
     = parse_data_field sample_lib (PDict [(''code'', PInt 424), (''msg'', PStr ''API limit reached''), (''data'', PDict [(''pvPower'', PInt 5)])])"
    by blast
  then have a: "get_system_summary sample_lib (\<lambda>r. Inr (PDict [(''code'', PInt 424), (''msg'', PStr ''API limit reached''), (''data'', PDict [(''pvPower'', PInt 5)])])) (sample_session\<lparr> system_id := PStr ''S1'' \<rparr>) PNone
     = Inr (PDict [(''pvPower'', PInt 5)])"
    by (simp add: parse_data_field_def)
  from inst have "get_system_summary sample_lib (\<lambda>r. Inr (PDict [(''code'', PInt 424), (''msg'', PStr ''API limit reached''), (''data'', PDict [(''pvPower'', PInt 5)])])) (sample_session\<lparr> system_id := PStr ''S1'' \<rparr>) PNone
     = get_system_summary sample_lib (\<lambda>r. Inr (PDict [(''code'', PInt 0), (''msg'', PStr ''success''), (''data'', PDict [(''pvPower'', PInt 5)])])) (sample_session\<lparr> system_id := PStr ''S1'' \<rparr>) PNone"
    by blast
  with a have b: "get_system_summary sample_lib (\<lambda>r. Inr (PDict [(''code'', PInt 0), (''msg'', PStr ''success''), (''data'', PDict [(''pvPower'', PInt 5)])])) (sample_session\<lparr> system_id := PStr ''S1'' \<rparr>) PNone
     = Inr (PDict [(''pvPower'', PInt 5)])"
    by simp
  note inst' = operations_read_data_only [OF refl, where env = "[(''code'', PInt 424), (''msg'', PStr ''API limit reached''), (''data'', PStr ''OK'')]" and lib = sample_lib
      and s = "(sample_session\<lparr> system_id := PStr ''S1'' \<rparr>)" and arg = PNone
      and verb = "''GET''" and endpoint = "[]" and kw = no_kwargs and dev_arg = PNone
      and start_time = None and end_time = None and interval = PNone]
  from inst' id have "get_system_summary sample_lib (\<lambda>r. Inr (PDict [(''code'', PInt 424), (''msg'', PStr ''API limit reached''), (''data'', PStr ''OK'')])) (sample_session\<lparr> system_id := PStr ''S1'' \<rparr>) PNone
     = parse_data_field sample_lib (PDict [(''code'', PInt 424), (''msg'', PStr ''API limit reached''), (''data'', PStr ''OK'')])"
    by blast
  moreover from inst' raw have "\<exists>v. parse_data_field sample_lib (PDict [(''code'', PInt 424), (''msg'', PStr ''API limit reached''), (''data'', PStr ''OK'')]) = Inr v"
    by blast
  ultimately have c: "get_system_summary sample_lib (\<lambda>r. Inr (PDict [(''code'', PInt 424), (''msg'', PStr ''API limit reached''), (''data'', PStr ''OK'')])) (sample_session\<lparr> system_id := PStr ''S1'' \<rparr>) PNone = Inr (PStr ''OK'')"
    by (simp add: parse_data_field_def sample_lib_def sample_loads_def)
  have field: "map_of [(''code'', PInt 424), (''msg'', PStr ''API limit reached''), (''data'', PStr ''OK'')] ''data'' = Some (PStr ''OK'')"
    by simp
  have undecoded: "json_loads sample_lib ''OK'' = Inl JSONDecodeError"
    by (simp add: sample_lib_def sample_loads_def)
  from same id a b field undecoded c show ?thesis by blast
qed

section \<open>The cached system identifier\<close>





text \<open>
  Claim C10. When \<^verbatim>\<open>get_systems\<close> receives a non-empty list whose first element is a
  mapping without a \<^verbatim>\<open>systemId\<close> key, it returns the list and the cached system
  identifier is \<^verbatim>\<open>None\<close> afterwards, whatever was cached before.
\<close>

theorem get_systems_missing_id_clears:
  "parse_data_field lib response = Inr (PList (PDict kvs # rest)) \<Longrightarrow>
   map_of kvs ''systemId'' = None \<Longrightarrow>
   get_systems lib (\<lambda>r. Inr response) s
     = (Inr (PList (PDict kvs # rest)), s\<lparr> system_id := PNone \<rparr>)"
  by (simp add: get_systems_def make_request_const)

theorem get_systems_missing_id_clears_witness:
  "parse_data_field sample_lib
     (PDict [(''code'', PInt 0), (''data'', PList [PDict [(''systemName'', PStr ''Home'')]])])
   = Inr (PList [PDict [(''systemName'', PStr ''Home'')]]) \<and>
   map_of [(''systemName'', PStr ''Home'')] ''systemId'' = None \<and>
   system_id (sample_session\<lparr> system_id := PStr ''S1'' \<rparr>) = PStr ''S1'' \<and>
   get_systems sample_lib
     (\<lambda>r. Inr (PDict [(''code'', PInt 0), (''data'', PList [PDict [(''systemName'', PStr ''Home'')]])]))
     (sample_session\<lparr> system_id := PStr ''S1'' \<rparr>)
   = (Inr (PList [PDict [(''systemName'', PStr ''Home'')]]), sample_session\<lparr> system_id := PNone \<rparr>)"
proof -
  have received: "parse_data_field sample_lib
     (PDict [(''code'', PInt 0), (''data'', PList [PDict [(''systemName'', PStr ''Home'')]])])
   = Inr (PList [PDict [(''systemName'', PStr ''Home'')]])"
    by (simp add: parse_data_field_def)
  have absent: "map_of [(''systemName'', PStr ''Home'')] ''systemId'' = None" by simp
  from received absent
    get_systems_missing_id_clears [OF received absent, of "sample_session\<lparr> system_id := PStr ''S1'' \<rparr>"]
  show ?thesis by simp
qed

section \<open>Decoding the devices\<close>

lemma cache_inverter_dict: "\<exists>s'. cache_inverter s (PDict kvs) = Inr s'"
  by (simp add: cache_inverter_def)

lemma devices_loop_decoded:
  "map (decode_device lib) items = map Inr devices \<Longrightarrow> \<forall>d\<in>set devices. \<exists>kvs. d = PDict kvs \<Longrightarrow>
   fst (devices_loop lib items acc s) = Inr (acc @ devices)"
proof (induction items arbitrary: devices acc s)
  case Nil
  then show ?case by simp
next
  case (Cons x items)
  from Cons.prems(1) obtain d ds where devices: "devices = d # ds"
    and d: "decode_device lib x = Inr d" and ds: "map (decode_device lib) items = map Inr ds"
    by (cases devices) auto
  from Cons.prems(2) devices obtain kvs where kvs: "d = PDict kvs" by auto
  obtain s' where s': "cache_inverter s d = Inr s'" using cache_inverter_dict kvs by blast
  from Cons.prems(2) devices have "\<forall>d\<in>set ds. \<exists>kvs. d = PDict kvs" by simp
  from Cons.IH [OF ds this, of "acc @ [d]" s'] d s' devices show ?case by simp
qed

lemma get_devices_answered:
  "truthy (py_or arg (system_id s)) \<Longrightarrow> map_of env ''data'' = Some (PList items) \<Longrightarrow>
   get_devices lib (\<lambda>r. Inr (PDict env)) s arg =
     (case devices_loop lib items [] s of
        (Inl e, s') \<Rightarrow> (Inl e, s')
      | (Inr devices, s') \<Rightarrow> (Inr (PList devices), s'))"
  by (simp add: get_devices_def make_request_def)


lemma decode_device_str: "json_loads lib t = Inr d \<Longrightarrow> decode_device lib (PStr t) = Inr d"
  by (simp add: decode_device_def)

lemma decode_device_other: "(\<forall>t. x \<noteq> PStr t) \<Longrightarrow> decode_device lib x = Inr x"
  by (cases x) (simp_all add: decode_device_def)

lemma get_devices_decoded:
  assumes "truthy (py_or arg (system_id s))" and "map_of env ''data'' = Some (PList items)"
    and "map (decode_device lib) items = map Inr devices"
    and "\<forall>d\<in>set devices. \<exists>kvs. d = PDict kvs"
  shows "fst (get_devices lib (\<lambda>r. Inr (PDict env)) s arg) = Inr (PList devices)"
proof -
  from devices_loop_decoded [OF assms(3,4), of "[]" s]
  obtain s' where "devices_loop lib items [] s = (Inr devices, s')"
    by (cases "devices_loop lib items [] s") auto
  with get_devices_answered [OF assms(1,2), of lib] show ?thesis by simp
qed

text \<open>
  Claim C5. \<^verbatim>\<open>get_devices\<close> decodes the raw device array element by element: a str
  element is decoded by \<^verbatim>\<open>json.loads\<close> on its own, any other element is kept as it
  is. So when the elements of two raw arrays decode to the same device objects, the two
  calls return the same list of devices, whichever elements came as JSON text.
\<close>

theorem get_devices_decodes_each:
  "truthy (py_or arg (system_id s)) \<Longrightarrow> map_of env ''data'' = Some (PList items) \<Longrightarrow>
   map (decode_device lib) items = map Inr devices \<Longrightarrow>
   truthy (py_or arg' (system_id s')) \<Longrightarrow> map_of env' ''data'' = Some (PList items') \<Longrightarrow>
   map (decode_device lib) items' = map Inr devices \<Longrightarrow>
   \<forall>d\<in>set devices. \<exists>kvs. d = PDict kvs \<Longrightarrow>
   fst (get_devices lib (\<lambda>r. Inr (PDict env)) s arg) = Inr (PList devices) \<and>
   fst (get_devices lib (\<lambda>r. Inr (PDict env')) s' arg') = Inr (PList devices) \<and>
   (\<forall>t d. json_loads lib t = Inr d \<longrightarrow> decode_device lib (PStr t) = Inr d) \<and>
   (\<forall>x. (\<forall>t. x \<noteq> PStr t) \<longrightarrow> decode_device lib x = Inr x)"
  by (simp add: get_devices_decoded decode_device_str decode_device_other)

theorem get_devices_decodes_each_witness:
  \<open>truthy (py_or PNone (system_id (sample_session\<lparr> system_id := PStr ''S1'' \<rparr>))) \<and>
   map (decode_device sample_lib) [PStr ''{"deviceType":"Inverter","serialNumber":"INV1"}'', PDict [(''deviceType'', PStr ''Battery''), (''serialNumber'', PStr ''BAT1'')]] = map Inr [PDict [(''deviceType'', PStr ''Inverter''), (''serialNumber'', PStr ''INV1'')], PDict [(''deviceType'', PStr ''Battery''), (''serialNumber'', PStr ''BAT1'')]] \<and>
   map (decode_device sample_lib) [PDict [(''deviceType'', PStr ''Inverter''), (''serialNumber'', PStr ''INV1'')], PStr ''{"deviceType":"Battery","serialNumber":"BAT1"}''] = map Inr [PDict [(''deviceType'', PStr ''Inverter''), (''serialNumber'', PStr ''INV1'')], PDict [(''deviceType'', PStr ''Battery''), (''serialNumber'', PStr ''BAT1'')]] \<and>
   fst (get_devices sample_lib (\<lambda>r. Inr (PDict [(''code'', PInt 0), (''data'', PList [PStr ''{"deviceType":"Inverter","serialNumber":"INV1"}'', PDict [(''deviceType'', PStr ''Battery''), (''serialNumber'', PStr ''BAT1'')]])])) (sample_session\<lparr> system_id := PStr ''S1'' \<rparr>) PNone)
     = Inr (PList [PDict [(''deviceType'', PStr ''Inverter''), (''serialNumber'', PStr ''INV1'')], PDict [(''deviceType'', PStr ''Battery''), (''serialNumber'', PStr ''BAT1'')]]) \<and>
   fst (get_devices sample_lib (\<lambda>r. Inr (PDict [(''code'', PInt 0), (''data'', PList [PDict [(''deviceType'', PStr ''Inverter''), (''serialNumber'', PStr ''INV1'')], PStr ''{"deviceType":"Battery","serialNumber":"BAT1"}''])])) (sample_session\<lparr> system_id := PStr ''S1'' \<rparr>) (PStr ''S1''))
     = Inr (PList [PDict [(''deviceType'', PStr ''Inverter''), (''serialNumber'', PStr ''INV1'')], PDict [(''deviceType'', PStr ''Battery''), (''serialNumber'', PStr ''BAT1'')]])\<close>
proof -
  have id: \<open>truthy (py_or PNone (system_id (sample_session\<lparr> system_id := PStr ''S1'' \<rparr>)))\<close>
    by (simp add: py_or_def)
  have id': \<open>truthy (py_or (PStr ''S1'') (system_id (sample_session\<lparr> system_id := PStr ''S1'' \<rparr>)))\<close>
    by (simp add: py_or_def)
  have a: \<open>map_of [(''code'', PInt 0), (''data'', PList [PStr ''{"deviceType":"Inverter","serialNumber":"INV1"}'', PDict [(''deviceType'', PStr ''Battery''), (''serialNumber'', PStr ''BAT1'')]])] ''data'' = Some (PList [PStr ''{"deviceType":"Inverter","serialNumber":"INV1"}'', PDict [(''deviceType'', PStr ''Battery''), (''serialNumber'', PStr ''BAT1'')]])\<close>
    by simp
  have b: \<open>map_of [(''code'', PInt 0), (''data'', PList [PDict [(''deviceType'', PStr ''Inverter''), (''serialNumber'', PStr ''INV1'')], PStr ''{"deviceType":"Battery","serialNumber":"BAT1"}''])] ''data'' = Some (PList [PDict [(''deviceType'', PStr ''Inverter''), (''serialNumber'', PStr ''INV1'')], PStr ''{"deviceType":"Battery","serialNumber":"BAT1"}''])\<close>
    by simp
  have da: \<open>map (decode_device sample_lib) [PStr ''{"deviceType":"Inverter","serialNumber":"INV1"}'', PDict [(''deviceType'', PStr ''Battery''), (''serialNumber'', PStr ''BAT1'')]] = map Inr [PDict [(''deviceType'', PStr ''Inverter''), (''serialNumber'', PStr ''INV1'')], PDict [(''deviceType'', PStr ''Battery''), (''serialNumber'', PStr ''BAT1'')]]\<close>
    by (simp add: decode_device_def sample_lib_def sample_loads_def)
  have db: \<open>map (decode_device sample_lib) [PDict [(''deviceType'', PStr ''Inverter''), (''serialNumber'', PStr ''INV1'')], PStr ''{"deviceType":"Battery","serialNumber":"BAT1"}''] = map Inr [PDict [(''deviceType'', PStr ''Inverter''), (''serialNumber'', PStr ''INV1'')], PDict [(''deviceType'', PStr ''Battery''), (''serialNumber'', PStr ''BAT1'')]]\<close>
    by (simp add: decode_device_def sample_lib_def sample_loads_def)
  have dicts: \<open>\<forall>d\<in>set [PDict [(''deviceType'', PStr ''Inverter''), (''serialNumber'', PStr ''INV1'')], PDict [(''deviceType'', PStr ''Battery''), (''serialNumber'', PStr ''BAT1'')]]. \<exists>kvs. d = PDict kvs\<close>
    by simp
  from id da db get_devices_decodes_each [OF id a da id' b db dicts] show ?thesis by blast
qed


section \<open>The cached inverter serial number\<close>

lemma cache_inverter_keeps:
  "truthy (inverter_serial_number s) \<Longrightarrow> cache_inverter s d = Inr s' \<Longrightarrow> s' = s"
  by (auto simp: cache_inverter_def split: sum.splits if_splits)

lemma devices_loop_keeps:
  "truthy (inverter_serial_number s) \<Longrightarrow> snd (devices_loop lib items acc s) = s"
proof (induction items arbitrary: acc)
  case Nil
  then show ?case by simp
next
  case (Cons x items)
  show ?case
  proof (cases "decode_device lib x")
    case (Inl e)
    then show ?thesis by simp
  next
    case d: (Inr d)
    show ?thesis
    proof (cases "cache_inverter s d")
      case (Inl e)
      with d show ?thesis by simp
    next
      case (Inr s')
      with cache_inverter_keeps [OF Cons.prems this] d Cons.IH [OF Cons.prems] show ?thesis by simp
    qed
  qed
qed

lemma get_devices_snd:
  "snd (get_devices lib http s arg) = s \<or>
   (\<exists>response items. truthy (py_or arg (system_id s)) \<and>
      make_request lib http s ''GET'' (''/openapi/system/'' @ py_str lib (py_or arg (system_id s)) @ ''/devices'') no_kwargs = Inr response \<and>
      py_get response ''data'' (PList []) = Inr items \<and>
      (\<exists>xs. py_iter items = Inr xs \<and> snd (get_devices lib http s arg) = snd (devices_loop lib xs [] s)))"
  by (auto simp: get_devices_def Let_def split: sum.splits prod.splits)

lemma get_devices_keeps:
  "truthy (inverter_serial_number s) \<Longrightarrow> snd (get_devices lib http s arg) = s"
  using get_devices_snd [of lib http s arg] by (auto simp: devices_loop_keeps)

lemma devices_loop_append:
  "devices_loop lib (xs @ ys) acc s =
     (case devices_loop lib xs acc s of
        (Inl e, s') \<Rightarrow> (Inl e, s')
      | (Inr devices, s') \<Rightarrow> devices_loop lib ys devices s')"
  by (induction xs arbitrary: acc s) (auto split: sum.splits)

lemma cache_inverter_other:
  "py_get d ''deviceType'' PNone = Inr ty \<Longrightarrow> ty \<noteq> PStr ''Inverter'' \<Longrightarrow> cache_inverter s d = Inr s"
  by (simp add: cache_inverter_def)

lemma cache_inverter_first:
  "\<not> truthy (inverter_serial_number s) \<Longrightarrow> py_get d ''deviceType'' PNone = Inr (PStr ''Inverter'') \<Longrightarrow>
   py_get d ''serialNumber'' PNone = Inr sn \<Longrightarrow>
   cache_inverter s d = Inr (s\<lparr> inverter_serial_number := sn \<rparr>)"
  by (simp add: cache_inverter_def)

lemma devices_loop_no_inverter:
  "map (decode_device lib) items = map Inr devices \<Longrightarrow>
   \<forall>d\<in>set devices. \<exists>ty. py_get d ''deviceType'' PNone = Inr ty \<and> ty \<noteq> PStr ''Inverter'' \<Longrightarrow>
   devices_loop lib items acc s = (Inr (acc @ devices), s)"
proof (induction items arbitrary: devices acc)
  case Nil
  then show ?case by simp
next
  case (Cons x items)
  from Cons.prems(1) obtain d ds where devices: "devices = d # ds"
    and d: "decode_device lib x = Inr d" and ds: "map (decode_device lib) items = map Inr ds"
    by (cases devices) auto
  from Cons.prems(2) devices obtain ty where "py_get d ''deviceType'' PNone = Inr ty" "ty \<noteq> PStr ''Inverter''"
    by auto
  then have same: "cache_inverter s d = Inr s" by (rule cache_inverter_other)
  from Cons.prems(2) devices
  have "\<forall>d\<in>set ds. \<exists>ty. py_get d ''deviceType'' PNone = Inr ty \<and> ty \<noteq> PStr ''Inverter''" by simp
  from Cons.IH [OF ds this, of "acc @ [d]"] d same devices show ?case by simp
qed

lemma devices_loop_first_inverter:
  assumes "\<not> truthy (inverter_serial_number s)"
    and "map (decode_device lib) pre = map Inr pre_devices"
    and "\<forall>d\<in>set pre_devices. \<exists>ty. py_get d ''deviceType'' PNone = Inr ty \<and> ty \<noteq> PStr ''Inverter''"
    and "decode_device lib x = Inr d"
    and "py_get d ''deviceType'' PNone = Inr (PStr ''Inverter'')"
    and "py_get d ''serialNumber'' PNone = Inr sn"
  shows "devices_loop lib (pre @ x # post) acc s =
           devices_loop lib post (acc @ pre_devices @ [d]) (s\<lparr> inverter_serial_number := sn \<rparr>)"
  using devices_loop_no_inverter [OF assms(2,3), of acc s] cache_inverter_first [OF assms(1,5,6)] assms(4)
  by (simp add: devices_loop_append)

lemma get_devices_snd_answered:
  "truthy (py_or arg (system_id s)) \<Longrightarrow> map_of env ''data'' = Some (PList items) \<Longrightarrow>
   snd (get_devices lib (\<lambda>r. Inr (PDict env)) s arg) = snd (devices_loop lib items [] s)"
  by (simp add: get_devices_answered split: prod.splits sum.splits)

text \<open>
  Claim C6, as the specification states it, fails. When the first inverter has no
  \<^verbatim>\<open>serialNumber\<close>, the second inverter of the same call is cached, not the first;
  and a serial number set to the empty string by one call is changed by the next call.
\<close>

theorem inverter_serial_later_match_counterexample:
  "get_devices sample_lib (\<lambda>r. Inr (PDict [(''code'', PInt 0), (''data'', PList [PDict [(''deviceType'', PStr ''Inverter'')], PDict [(''deviceType'', PStr ''Inverter''), (''serialNumber'', PStr ''INV2'')]])]))
     (sample_session\<lparr> system_id := PStr ''S1'' \<rparr>) PNone
   = (Inr (PList [PDict [(''deviceType'', PStr ''Inverter'')], PDict [(''deviceType'', PStr ''Inverter''), (''serialNumber'', PStr ''INV2'')]]),
      (sample_session\<lparr> system_id := PStr ''S1'', inverter_serial_number := PStr ''INV2'' \<rparr>)) \<and>
   get_devices sample_lib (\<lambda>r. Inr (PDict [(''code'', PInt 0), (''data'', PList [PDict [(''deviceType'', PStr ''Inverter''), (''serialNumber'', PStr [])]])]))
     (sample_session\<lparr> system_id := PStr ''S1'' \<rparr>) PNone
   = (Inr (PList [PDict [(''deviceType'', PStr ''Inverter''), (''serialNumber'', PStr [])]]),
      (sample_session\<lparr> system_id := PStr ''S1'', inverter_serial_number := PStr [] \<rparr>)) \<and>
   get_devices sample_lib (\<lambda>r. Inr (PDict [(''code'', PInt 0), (''data'', PList [PDict [(''deviceType'', PStr ''Inverter''), (''serialNumber'', PStr ''INV2'')]])]))
     (sample_session\<lparr> system_id := PStr ''S1'', inverter_serial_number := PStr [] \<rparr>) PNone
   = (Inr (PList [PDict [(''deviceType'', PStr ''Inverter''), (''serialNumber'', PStr ''INV2'')]]),
      (sample_session\<lparr> system_id := PStr ''S1'', inverter_serial_number := PStr ''INV2'' \<rparr>))"
  by (simp add: get_devices_def make_request_def py_or_def decode_device_def cache_inverter_def
      sample_session_def init_def)

text \<open>
  Claim C6, amended. A serial number counts as cached when it is truthy (line 151: not
  \<^verbatim>\<open>None\<close>, not empty). Once one is cached, no call of \<^verbatim>\<open>get_devices\<close> changes the
  client, whatever the server answers. While none is cached, the loop sets it from each
  device of type \<^verbatim>\<open>Inverter\<close> it meets: the first inverter sets it, and when that
  serial number is truthy the devices after it in the same call do not change it; when
  it is missing or empty, the next inverter overwrites it.
\<close>

theorem inverter_serial_first_truthy_match:
  "(truthy (inverter_serial_number s) \<longrightarrow> snd (get_devices lib http s arg) = s) \<and>
   (\<not> truthy (inverter_serial_number s) \<and>
    map (decode_device lib) pre = map Inr pre_devices \<and>
    (\<forall>d\<in>set pre_devices. \<exists>ty. py_get d ''deviceType'' PNone = Inr ty \<and> ty \<noteq> PStr ''Inverter'') \<and>
    decode_device lib x = Inr d \<and>
    py_get d ''deviceType'' PNone = Inr (PStr ''Inverter'') \<and>
    py_get d ''serialNumber'' PNone = Inr sn
    \<longrightarrow> snd (devices_loop lib (pre @ [x]) acc s) = s\<lparr> inverter_serial_number := sn \<rparr> \<and>
        (truthy sn \<and> truthy (py_or arg (system_id s)) \<and> map_of env ''data'' = Some (PList (pre @ x # post))
           \<longrightarrow> snd (get_devices lib (\<lambda>r. Inr (PDict env)) s arg) = s\<lparr> inverter_serial_number := sn \<rparr>) \<and>
        (\<not> truthy sn \<and>
         map (decode_device lib) mid = map Inr mid_devices \<and>
         (\<forall>d\<in>set mid_devices. \<exists>ty. py_get d ''deviceType'' PNone = Inr ty \<and> ty \<noteq> PStr ''Inverter'') \<and>
         decode_device lib x' = Inr d' \<and>
         py_get d' ''deviceType'' PNone = Inr (PStr ''Inverter'') \<and>
         py_get d' ''serialNumber'' PNone = Inr sn' \<and>
         truthy (py_or arg (system_id s)) \<and> map_of env ''data'' = Some (PList (pre @ x # mid @ [x']))
           \<longrightarrow> snd (get_devices lib (\<lambda>r. Inr (PDict env)) s arg) = s\<lparr> inverter_serial_number := sn' \<rparr>))"
proof -
  have kept: "truthy (inverter_serial_number s) \<longrightarrow> snd (get_devices lib http s arg) = s"
    by (simp add: get_devices_keeps)
  have first: "snd (devices_loop lib (pre @ [x]) acc s) = s\<lparr> inverter_serial_number := sn \<rparr> \<and>
        (truthy sn \<and> truthy (py_or arg (system_id s)) \<and> map_of env ''data'' = Some (PList (pre @ x # post))
           \<longrightarrow> snd (get_devices lib (\<lambda>r. Inr (PDict env)) s arg) = s\<lparr> inverter_serial_number := sn \<rparr>) \<and>
        (\<not> truthy sn \<and>
         map (decode_device lib) mid = map Inr mid_devices \<and>
         (\<forall>d\<in>set mid_devices. \<exists>ty. py_get d ''deviceType'' PNone = Inr ty \<and> ty \<noteq> PStr ''Inverter'') \<and>
         decode_device lib x' = Inr d' \<and>
         py_get d' ''deviceType'' PNone = Inr (PStr ''Inverter'') \<and>
         py_get d' ''serialNumber'' PNone = Inr sn' \<and>
         truthy (py_or arg (system_id s)) \<and> map_of env ''data'' = Some (PList (pre @ x # mid @ [x']))
           \<longrightarrow> snd (get_devices lib (\<lambda>r. Inr (PDict env)) s arg) = s\<lparr> inverter_serial_number := sn' \<rparr>)"
    if none: "\<not> truthy (inverter_serial_number s)"
      and pre: "map (decode_device lib) pre = map Inr pre_devices"
      and others: "(\<forall>d\<in>set pre_devices. \<exists>ty. py_get d ''deviceType'' PNone = Inr ty \<and> ty \<noteq> PStr ''Inverter'')"
      and x: "decode_device lib x = Inr d"
      and ty: "py_get d ''deviceType'' PNone = Inr (PStr ''Inverter'')"
      and sn: "py_get d ''serialNumber'' PNone = Inr sn"
  proof (intro conjI impI)
    have step: "devices_loop lib (pre @ x # post') acc' s =
        devices_loop lib post' (acc' @ pre_devices @ [d]) (s\<lparr> inverter_serial_number := sn \<rparr>)"
      for post' acc'
      using none pre others x ty sn by (rule devices_loop_first_inverter)
    from step [of "[]" acc]
    show "snd (devices_loop lib (pre @ [x]) acc s) = s\<lparr> inverter_serial_number := sn \<rparr>" by simp
    {
      assume g: "truthy sn \<and> truthy (py_or arg (system_id s)) \<and>
        map_of env ''data'' = Some (PList (pre @ x # post))"
      then have "truthy (inverter_serial_number (s\<lparr> inverter_serial_number := sn \<rparr>))" by simp
      from devices_loop_keeps [OF this, of lib post "[] @ pre_devices @ [d]"] step [of post "[]"]
      have "snd (devices_loop lib (pre @ x # post) [] s) = s\<lparr> inverter_serial_number := sn \<rparr>" by simp
      with g get_devices_snd_answered [of arg s env "pre @ x # post" lib]
      show "snd (get_devices lib (\<lambda>r. Inr (PDict env)) s arg) = s\<lparr> inverter_serial_number := sn \<rparr>"
        by simp
    }
    {
      assume g: "\<not> truthy sn \<and>
         map (decode_device lib) mid = map Inr mid_devices \<and>
         (\<forall>d\<in>set mid_devices. \<exists>ty. py_get d ''deviceType'' PNone = Inr ty \<and> ty \<noteq> PStr ''Inverter'') \<and>
         decode_device lib x' = Inr d' \<and>
         py_get d' ''deviceType'' PNone = Inr (PStr ''Inverter'') \<and>
         py_get d' ''serialNumber'' PNone = Inr sn' \<and>
         truthy (py_or arg (system_id s)) \<and> map_of env ''data'' = Some (PList (pre @ x # mid @ [x']))"
      then have still: "\<not> truthy (inverter_serial_number (s\<lparr> inverter_serial_number := sn \<rparr>))" by simp
      from g have mid: "map (decode_device lib) mid = map Inr mid_devices"
        and mothers: "(\<forall>d\<in>set mid_devices. \<exists>ty. py_get d ''deviceType'' PNone = Inr ty \<and> ty \<noteq> PStr ''Inverter'')"
        and x': "decode_device lib x' = Inr d'"
        and ty': "py_get d' ''deviceType'' PNone = Inr (PStr ''Inverter'')"
        and sn': "py_get d' ''serialNumber'' PNone = Inr sn'"
        by simp_all
      from devices_loop_first_inverter [OF still mid mothers x' ty' sn', of "[]" "[] @ pre_devices @ [d]"]
        step [of "mid @ [x']" "[]"]
      have "snd (devices_loop lib (pre @ x # mid @ [x']) [] s) = s\<lparr> inverter_serial_number := sn' \<rparr>"
        by simp
      with g get_devices_snd_answered [of arg s env "pre @ x # mid @ [x']" lib]
      show "snd (get_devices lib (\<lambda>r. Inr (PDict env)) s arg) = s\<lparr> inverter_serial_number := sn' \<rparr>"
        by simp
    }
  qed
  from kept first show ?thesis by blast
qed

theorem inverter_serial_first_truthy_match_witness:
  \<open>\<not> truthy (inverter_serial_number (sample_session\<lparr> system_id := PStr ''S1'' \<rparr>)) \<and>
   snd (get_devices sample_lib (\<lambda>r. Inr (PDict [(''code'', PInt 0), (''data'', PList [PStr ''{"deviceType":"Battery","serialNumber":"BAT1"}'', PDict [(''deviceType'', PStr ''Inverter''), (''serialNumber'', PStr ''INV1'')], PDict [(''deviceType'', PStr ''Inverter''), (''serialNumber'', PStr ''INV2'')]])])) (sample_session\<lparr> system_id := PStr ''S1'' \<rparr>) PNone)
     = (sample_session\<lparr> system_id := PStr ''S1'' \<rparr>)\<lparr> inverter_serial_number := PStr ''INV1'' \<rparr> \<and>
   truthy (inverter_serial_number (sample_session\<lparr> system_id := PStr ''S1'', inverter_serial_number := PStr ''INV1'' \<rparr>)) \<and>
   snd (get_devices sample_lib (\<lambda>r. Inr (PDict [(''code'', PInt 0), (''data'', PList [PDict [(''deviceType'', PStr ''Inverter''), (''serialNumber'', PStr ''INV2'')]])])) (sample_session\<lparr> system_id := PStr ''S1'', inverter_serial_number := PStr ''INV1'' \<rparr>) PNone)
     = (sample_session\<lparr> system_id := PStr ''S1'', inverter_serial_number := PStr ''INV1'' \<rparr>) \<and>
   \<not> truthy PNone \<and>
   snd (get_devices sample_lib (\<lambda>r. Inr (PDict [(''code'', PInt 0), (''data'', PList [PDict [(''deviceType'', PStr ''Inverter'')], PDict [(''deviceType'', PStr ''Inverter''), (''serialNumber'', PStr ''INV2'')]])])) (sample_session\<lparr> system_id := PStr ''S1'' \<rparr>) PNone)
     = (sample_session\<lparr> system_id := PStr ''S1'' \<rparr>)\<lparr> inverter_serial_number := PStr ''INV2'' \<rparr>\<close>
proof -
  have none: \<open>\<not> truthy (inverter_serial_number (sample_session\<lparr> system_id := PStr ''S1'' \<rparr>))\<close>
    by (simp add: sample_session_def init_def)
  have pre: \<open>map (decode_device sample_lib) [PStr ''{"deviceType":"Battery","serialNumber":"BAT1"}''] = map Inr [PDict [(''deviceType'', PStr ''Battery''), (''serialNumber'', PStr ''BAT1'')]]\<close>
    by (simp add: decode_device_def sample_lib_def sample_loads_def)
  have others: \<open>\<forall>d\<in>set [PDict [(''deviceType'', PStr ''Battery''), (''serialNumber'', PStr ''BAT1'')]]. \<exists>ty. py_get d ''deviceType'' PNone = Inr ty \<and> ty \<noteq> PStr ''Inverter''\<close>
    by simp
  have x: \<open>decode_device sample_lib (PDict [(''deviceType'', PStr ''Inverter''), (''serialNumber'', PStr ''INV1'')]) = Inr (PDict [(''deviceType'', PStr ''Inverter''), (''serialNumber'', PStr ''INV1'')])\<close>
    by (simp add: decode_device_def)
  have ty: \<open>py_get (PDict [(''deviceType'', PStr ''Inverter''), (''serialNumber'', PStr ''INV1'')]) ''deviceType'' PNone = Inr (PStr ''Inverter'')\<close>
    by simp
  have sn: \<open>py_get (PDict [(''deviceType'', PStr ''Inverter''), (''serialNumber'', PStr ''INV1'')]) ''serialNumber'' PNone = Inr (PStr ''INV1'')\<close>
    by simp
  have rest: \<open>truthy (PStr ''INV1'') \<and> truthy (py_or PNone (system_id (sample_session\<lparr> system_id := PStr ''S1'' \<rparr>))) \<and>
     map_of [(''code'', PInt 0), (''data'', PList [PStr ''{"deviceType":"Battery","serialNumber":"BAT1"}'', PDict [(''deviceType'', PStr ''Inverter''), (''serialNumber'', PStr ''INV1'')], PDict [(''deviceType'', PStr ''Inverter''), (''serialNumber'', PStr ''INV2'')]])] ''data'' = Some (PList ([PStr ''{"deviceType":"Battery","serialNumber":"BAT1"}''] @ PDict [(''deviceType'', PStr ''Inverter''), (''serialNumber'', PStr ''INV1'')] # [PDict [(''deviceType'', PStr ''Inverter''), (''serialNumber'', PStr ''INV2'')]]))\<close>
    by (simp add: py_or_def)
  have cached: \<open>truthy (inverter_serial_number (sample_session\<lparr> system_id := PStr ''S1'', inverter_serial_number := PStr ''INV1'' \<rparr>))\<close>
    by simp
  from none pre others x ty sn rest
    inverter_serial_first_truthy_match [where s = \<open>(sample_session\<lparr> system_id := PStr ''S1'' \<rparr>)\<close> and lib = sample_lib
      and http = \<open>\<lambda>r. Inl RequestException\<close> and pre = \<open>[PStr ''{"deviceType":"Battery","serialNumber":"BAT1"}'']\<close>
      and pre_devices = \<open>[PDict [(''deviceType'', PStr ''Battery''), (''serialNumber'', PStr ''BAT1'')]]\<close> and x = \<open>PDict [(''deviceType'', PStr ''Inverter''), (''serialNumber'', PStr ''INV1'')]\<close> and d = \<open>PDict [(''deviceType'', PStr ''Inverter''), (''serialNumber'', PStr ''INV1'')]\<close> and sn = \<open>PStr ''INV1''\<close>
      and acc = \<open>[]\<close> and arg = PNone and env = \<open>[(''code'', PInt 0), (''data'', PList [PStr ''{"deviceType":"Battery","serialNumber":"BAT1"}'', PDict [(''deviceType'', PStr ''Inverter''), (''serialNumber'', PStr ''INV1'')], PDict [(''deviceType'', PStr ''Inverter''), (''serialNumber'', PStr ''INV2'')]])]\<close> and post = \<open>[PDict [(''deviceType'', PStr ''Inverter''), (''serialNumber'', PStr ''INV2'')]]\<close>
      and mid = \<open>[]\<close> and mid_devices = \<open>[]\<close> and x' = PNone and d' = PNone and sn' = PNone]
  have a: \<open>snd (get_devices sample_lib (\<lambda>r. Inr (PDict [(''code'', PInt 0), (''data'', PList [PStr ''{"deviceType":"Battery","serialNumber":"BAT1"}'', PDict [(''deviceType'', PStr ''Inverter''), (''serialNumber'', PStr ''INV1'')], PDict [(''deviceType'', PStr ''Inverter''), (''serialNumber'', PStr ''INV2'')]])])) (sample_session\<lparr> system_id := PStr ''S1'' \<rparr>) PNone)
     = (sample_session\<lparr> system_id := PStr ''S1'' \<rparr>)\<lparr> inverter_serial_number := PStr ''INV1'' \<rparr>\<close>
    by blast
  from cached
    inverter_serial_first_truthy_match [where s = \<open>(sample_session\<lparr> system_id := PStr ''S1'', inverter_serial_number := PStr ''INV1'' \<rparr>)\<close> and lib = sample_lib
      and http = \<open>\<lambda>r. Inr (PDict [(''code'', PInt 0), (''data'', PList [PDict [(''deviceType'', PStr ''Inverter''), (''serialNumber'', PStr ''INV2'')]])])\<close> and arg = PNone]
  have b: \<open>snd (get_devices sample_lib (\<lambda>r. Inr (PDict [(''code'', PInt 0), (''data'', PList [PDict [(''deviceType'', PStr ''Inverter''), (''serialNumber'', PStr ''INV2'')]])])) (sample_session\<lparr> system_id := PStr ''S1'', inverter_serial_number := PStr ''INV1'' \<rparr>) PNone)
     = (sample_session\<lparr> system_id := PStr ''S1'', inverter_serial_number := PStr ''INV1'' \<rparr>)\<close>
    by blast
  have x0: \<open>decode_device sample_lib (PDict [(''deviceType'', PStr ''Inverter'')]) = Inr (PDict [(''deviceType'', PStr ''Inverter'')])\<close>
    by (simp add: decode_device_def)
  have ty0: \<open>py_get (PDict [(''deviceType'', PStr ''Inverter'')]) ''deviceType'' PNone = Inr (PStr ''Inverter'')\<close>
    by simp
  have sn0: \<open>py_get (PDict [(''deviceType'', PStr ''Inverter'')]) ''serialNumber'' PNone = Inr PNone\<close>
    by simp
  have falsy: \<open>\<not> truthy PNone\<close> by simp
  have dx': \<open>decode_device sample_lib (PDict [(''deviceType'', PStr ''Inverter''), (''serialNumber'', PStr ''INV2'')]) = Inr (PDict [(''deviceType'', PStr ''Inverter''), (''serialNumber'', PStr ''INV2'')])\<close>
    by (simp add: decode_device_def)
  have ty': \<open>py_get (PDict [(''deviceType'', PStr ''Inverter''), (''serialNumber'', PStr ''INV2'')]) ''deviceType'' PNone = Inr (PStr ''Inverter'')\<close>
    by simp
  have sn': \<open>py_get (PDict [(''deviceType'', PStr ''Inverter''), (''serialNumber'', PStr ''INV2'')]) ''serialNumber'' PNone = Inr (PStr ''INV2'')\<close>
    by simp
  have rest0: \<open>truthy (py_or PNone (system_id (sample_session\<lparr> system_id := PStr ''S1'' \<rparr>))) \<and>
     map_of [(''code'', PInt 0), (''data'', PList [PDict [(''deviceType'', PStr ''Inverter'')], PDict [(''deviceType'', PStr ''Inverter''), (''serialNumber'', PStr ''INV2'')]])] ''data'' = Some (PList ([] @ PDict [(''deviceType'', PStr ''Inverter'')] # [] @ [PDict [(''deviceType'', PStr ''Inverter''), (''serialNumber'', PStr ''INV2'')]]))\<close>
    by (simp add: py_or_def)
  have empty: \<open>map (decode_device sample_lib) [] = map Inr []\<close>
    and nobody: \<open>\<forall>d\<in>set ([] :: pyval list). \<exists>ty. py_get d ''deviceType'' PNone = Inr ty \<and> ty \<noteq> PStr ''Inverter''\<close>
    by simp_all
  from none empty nobody x0 ty0 sn0 falsy dx' ty' sn' rest0
    inverter_serial_first_truthy_match [where s = \<open>(sample_session\<lparr> system_id := PStr ''S1'' \<rparr>)\<close> and lib = sample_lib
      and http = \<open>\<lambda>r. Inl RequestException\<close> and pre = \<open>[]\<close>
      and pre_devices = \<open>[]\<close> and x = \<open>PDict [(''deviceType'', PStr ''Inverter'')]\<close> and d = \<open>PDict [(''deviceType'', PStr ''Inverter'')]\<close> and sn = PNone
      and acc = \<open>[]\<close> and arg = PNone and env = \<open>[(''code'', PInt 0), (''data'', PList [PDict [(''deviceType'', PStr ''Inverter'')], PDict [(''deviceType'', PStr ''Inverter''), (''serialNumber'', PStr ''INV2'')]])]\<close> and post = \<open>[]\<close>
      and mid = \<open>[]\<close> and mid_devices = \<open>[]\<close> and x' = \<open>PDict [(''deviceType'', PStr ''Inverter''), (''serialNumber'', PStr ''INV2'')]\<close> and d' = \<open>PDict [(''deviceType'', PStr ''Inverter''), (''serialNumber'', PStr ''INV2'')]\<close>
      and sn' = \<open>PStr ''INV2''\<close>]
  have c: \<open>snd (get_devices sample_lib (\<lambda>r. Inr (PDict [(''code'', PInt 0), (''data'', PList [PDict [(''deviceType'', PStr ''Inverter'')], PDict [(''deviceType'', PStr ''Inverter''), (''serialNumber'', PStr ''INV2'')]])])) (sample_session\<lparr> system_id := PStr ''S1'' \<rparr>) PNone)
     = (sample_session\<lparr> system_id := PStr ''S1'' \<rparr>)\<lparr> inverter_serial_number := PStr ''INV2'' \<rparr>\<close>
    by blast
  from none a cached b falsy c show ?thesis by blast
qed

section \<open>Resolving the system identifier and the device serial number\<close>

lemma prepare_request_fields:
  "req_method (prepare_request lib s method endpoint kw) = method"
  "req_url (prepare_request lib s method endpoint kw) = base_url s @ endpoint"
  "req_params (prepare_request lib s method endpoint kw) = kw_params kw"
  "req_json (prepare_request lib s method endpoint kw) = kw_json kw"
  by (simp_all add: prepare_request_def Let_def)

lemma get_devices_request:
  "truthy (py_or arg (system_id s)) \<Longrightarrow>
   get_devices lib http s arg =
     (case http (prepare_request lib s ''GET''
              (''/openapi/system/'' @ py_str lib (py_or arg (system_id s)) @ ''/devices'') no_kwargs) of
        Inl e \<Rightarrow> (Inl e, s)
      | Inr response \<Rightarrow>
          (case py_get response ''data'' (PList []) of
             Inl e \<Rightarrow> (Inl e, s)
           | Inr devices_data \<Rightarrow>
               (case py_iter devices_data of
                  Inl e \<Rightarrow> (Inl e, s)
                | Inr items \<Rightarrow>
                    (case devices_loop lib items [] s of
                       (Inl e, s') \<Rightarrow> (Inl e, s')
                     | (Inr devices, s') \<Rightarrow> (Inr (PList devices), s')))))"
  by (simp add: get_devices_def make_request_def)

text \<open>
  Claim C7. In \<^verbatim>\<open>get_devices\<close>, \<^verbatim>\<open>get_system_summary\<close>, \<^verbatim>\<open>get_system_energy_flow\<close>,
  \<^verbatim>\<open>get_device_realtime_info\<close> and \<^verbatim>\<open>get_system_history\<close> the system identifier is
  the argument when one is given (a truthy value), else the cached one; the device serial
  number of \<^verbatim>\<open>get_device_realtime_info\<close> likewise. Each operation sends one request,
  to the URL of the resolved values, and its result is what it makes of the answer to
  that request. When neither the argument nor the cache gives a value, the operation
  raises the \<^verbatim>\<open>ValueError\<close> of its guard, sends nothing and leaves the client as it
  was.
\<close>

theorem context_resolution:
  "sid = py_or arg (system_id s) \<Longrightarrow> dsn = py_or dev_arg (inverter_serial_number s) \<Longrightarrow>
   (truthy arg \<longrightarrow> sid = arg) \<and> (\<not> truthy arg \<longrightarrow> sid = system_id s) \<and>
   (truthy dev_arg \<longrightarrow> dsn = dev_arg) \<and> (\<not> truthy dev_arg \<longrightarrow> dsn = inverter_serial_number s) \<and>
   (\<not> truthy sid \<longrightarrow>
      get_devices lib http s arg = (Inl missing_system_id, s) \<and>
      get_system_summary lib http s arg = Inl missing_system_id \<and>
      get_system_energy_flow lib http s arg = Inl missing_system_id \<and>
      get_device_realtime_info lib http s dev_arg arg = Inl missing_system_id \<and>
      get_system_history lib http s arg start_time end_time interval = Inl missing_system_id) \<and>
   (truthy sid \<and> \<not> truthy dsn \<longrightarrow>
      get_device_realtime_info lib http s dev_arg arg = Inl missing_device_serial) \<and>
   (truthy sid \<longrightarrow>
      get_devices lib http s arg =
        (case http (prepare_request lib s ''GET''
                 (''/openapi/system/'' @ py_str lib sid @ ''/devices'') no_kwargs) of
           Inl e \<Rightarrow> (Inl e, s)
         | Inr response \<Rightarrow>
             (case py_get response ''data'' (PList []) of
                Inl e \<Rightarrow> (Inl e, s)
              | Inr devices_data \<Rightarrow>
                  (case py_iter devices_data of
                     Inl e \<Rightarrow> (Inl e, s)
                   | Inr items \<Rightarrow>
                       (case devices_loop lib items [] s of
                          (Inl e, s') \<Rightarrow> (Inl e, s')
                        | (Inr devices, s') \<Rightarrow> (Inr (PList devices), s'))))) \<and>
      get_system_summary lib http s arg =
        (case http (prepare_request lib s ''GET''
                 (''/openapi/systems/'' @ py_str lib sid @ ''/summary'') no_kwargs) of
           Inl e \<Rightarrow> Inl e | Inr response \<Rightarrow> parse_data_field lib response) \<and>
      get_system_energy_flow lib http s arg =
        (case http (prepare_request lib s ''GET''
                 (''/openapi/systems/'' @ py_str lib sid @ ''/energyFlow'') no_kwargs) of
           Inl e \<Rightarrow> Inl e | Inr response \<Rightarrow> parse_data_field lib response) \<and>
      get_system_history lib http s arg start_time end_time interval =
        (case http (prepare_request lib s ''GET''
                 (''/openapi/systems/'' @ py_str lib sid @ ''/history'')
                 (no_kwargs\<lparr> kw_params := Some (history_params start_time end_time interval) \<rparr>)) of
           Inl e \<Rightarrow> Inl e | Inr response \<Rightarrow> parse_data_field lib response)) \<and>
   (truthy sid \<and> truthy dsn \<longrightarrow>
      get_device_realtime_info lib http s dev_arg arg =
        (case http (prepare_request lib s ''GET''
                 (''/openapi/systems/'' @ py_str lib sid @ ''/devices/'' @ py_str lib dsn
                    @ ''/realtimeInfo'') no_kwargs) of
           Inl e \<Rightarrow> Inl e | Inr response \<Rightarrow> parse_data_field lib response))"
proof -
  assume sid: "sid = py_or arg (system_id s)" and dsn: "dsn = py_or dev_arg (inverter_serial_number s)"
  have p1: "truthy arg \<longrightarrow> sid = arg" by (simp add: sid py_or_def)
  have p2: "\<not> truthy arg \<longrightarrow> sid = system_id s" by (simp add: sid py_or_def)
  have p3: "truthy dev_arg \<longrightarrow> dsn = dev_arg" by (simp add: dsn py_or_def)
  have p4: "\<not> truthy dev_arg \<longrightarrow> dsn = inverter_serial_number s" by (simp add: dsn py_or_def)
  have m: "\<not> truthy sid \<longrightarrow>
      get_devices lib http s arg = (Inl missing_system_id, s) \<and>
      get_system_summary lib http s arg = Inl missing_system_id \<and>
      get_system_energy_flow lib http s arg = Inl missing_system_id \<and>
      get_device_realtime_info lib http s dev_arg arg = Inl missing_system_id \<and>
      get_system_history lib http s arg start_time end_time interval = Inl missing_system_id"
    by (simp add: sid get_devices_def get_system_summary_def get_system_energy_flow_def
        get_device_realtime_info_def get_system_history_def)
  have md: "truthy sid \<and> \<not> truthy dsn \<longrightarrow>
      get_device_realtime_info lib http s dev_arg arg = Inl missing_device_serial"
    by (simp add: sid dsn get_device_realtime_info_def)
  have d: "truthy sid \<longrightarrow> get_devices lib http s arg =
        (case http (prepare_request lib s ''GET''
                 (''/openapi/system/'' @ py_str lib sid @ ''/devices'') no_kwargs) of
           Inl e \<Rightarrow> (Inl e, s)
         | Inr response \<Rightarrow>
             (case py_get response ''data'' (PList []) of
                Inl e \<Rightarrow> (Inl e, s)
              | Inr devices_data \<Rightarrow>
                  (case py_iter devices_data of
                     Inl e \<Rightarrow> (Inl e, s)
                   | Inr items \<Rightarrow>
                       (case devices_loop lib items [] s of
                          (Inl e, s') \<Rightarrow> (Inl e, s')
                        | (Inr devices, s') \<Rightarrow> (Inr (PList devices), s')))))"
    using get_devices_request [of arg s lib http] by (simp add: sid)
  have su: "truthy sid \<longrightarrow> get_system_summary lib http s arg =
        (case http (prepare_request lib s ''GET''
                 (''/openapi/systems/'' @ py_str lib sid @ ''/summary'') no_kwargs) of
           Inl e \<Rightarrow> Inl e | Inr response \<Rightarrow> parse_data_field lib response)"
    by (simp add: sid get_system_summary_def make_request_def)
  have ef: "truthy sid \<longrightarrow> get_system_energy_flow lib http s arg =
        (case http (prepare_request lib s ''GET''
                 (''/openapi/systems/'' @ py_str lib sid @ ''/energyFlow'') no_kwargs) of
           Inl e \<Rightarrow> Inl e | Inr response \<Rightarrow> parse_data_field lib response)"
    by (simp add: sid get_system_energy_flow_def make_request_def)
  have hi: "truthy sid \<longrightarrow> get_system_history lib http s arg start_time end_time interval =
        (case http (prepare_request lib s ''GET''
                 (''/openapi/systems/'' @ py_str lib sid @ ''/history'')
                 (no_kwargs\<lparr> kw_params := Some (history_params start_time end_time interval) \<rparr>)) of
           Inl e \<Rightarrow> Inl e | Inr response \<Rightarrow> parse_data_field lib response)"
    by (simp add: sid get_system_history_def make_request_def)
  have rt: "truthy sid \<and> truthy dsn \<longrightarrow>
      get_device_realtime_info lib http s dev_arg arg =
        (case http (prepare_request lib s ''GET''
                 (''/openapi/systems/'' @ py_str lib sid @ ''/devices/'' @ py_str lib dsn
                    @ ''/realtimeInfo'') no_kwargs) of
           Inl e \<Rightarrow> Inl e | Inr response \<Rightarrow> parse_data_field lib response)"
    by (simp add: sid dsn get_device_realtime_info_def make_request_def)
  from p1 p2 p3 p4 m md d su ef hi rt show ?thesis by blast
qed


theorem context_resolution_witness:
  "truthy (PStr ''S2'') \<and>
   get_system_summary sample_lib (\<lambda>r. Inr (PDict [(''code'', PInt 0), (''data'', PStr (req_url r))])) (sample_session\<lparr> system_id := PStr ''S1'' \<rparr>) (PStr ''S2'')
     = Inr (PStr ''https://api-aus.sigencloud.com/openapi/systems/S2/summary'') \<and>
   \<not> truthy PNone \<and>
   get_system_summary sample_lib (\<lambda>r. Inr (PDict [(''code'', PInt 0), (''data'', PStr (req_url r))])) (sample_session\<lparr> system_id := PStr ''S1'' \<rparr>) PNone
     = Inr (PStr ''https://api-aus.sigencloud.com/openapi/systems/S1/summary'') \<and>
   get_device_realtime_info sample_lib (\<lambda>r. Inr (PDict [(''code'', PInt 0), (''data'', PStr (req_url r))])) (sample_session\<lparr> system_id := PStr ''S1'', inverter_serial_number := PStr ''INV1'' \<rparr>) PNone PNone
     = Inr (PStr ''https://api-aus.sigencloud.com/openapi/systems/S1/devices/INV1/realtimeInfo'') \<and>
   get_device_realtime_info sample_lib (\<lambda>r. Inr (PDict [(''code'', PInt 0), (''data'', PStr (req_url r))])) (sample_session\<lparr> system_id := PStr ''S1'', inverter_serial_number := PStr ''INV1'' \<rparr>) (PStr ''INV2'') PNone
     = Inr (PStr ''https://api-aus.sigencloud.com/openapi/systems/S1/devices/INV2/realtimeInfo'') \<and>
   get_device_realtime_info sample_lib (\<lambda>r. Inr (PDict [(''code'', PInt 0), (''data'', PStr (req_url r))])) (sample_session\<lparr> system_id := PStr ''S1'' \<rparr>) PNone PNone = Inl missing_device_serial \<and>
   get_devices sample_lib (\<lambda>r. Inr (PDict [(''code'', PInt 0), (''data'', PList [PDict [(''url'', PStr (req_url r))]])])) (sample_session\<lparr> system_id := PStr ''S1'' \<rparr>) (PStr ''S2'')
     = (Inr (PList [PDict [(''url'', PStr ''https://api-aus.sigencloud.com/openapi/system/S2/devices'')]]),
        (sample_session\<lparr> system_id := PStr ''S1'' \<rparr>)) \<and>
   get_devices sample_lib (\<lambda>r. Inr (PDict [(''code'', PInt 0), (''data'', PList [PDict [(''url'', PStr (req_url r))]])])) (sample_session\<lparr> system_id := PStr ''S1'' \<rparr>) PNone
     = (Inr (PList [PDict [(''url'', PStr ''https://api-aus.sigencloud.com/openapi/system/S1/devices'')]]),
        (sample_session\<lparr> system_id := PStr ''S1'' \<rparr>)) \<and>
   get_devices sample_lib (\<lambda>r. Inl RequestException) (sample_session\<lparr> system_id := PStr ''S1'' \<rparr>) PNone = (Inl RequestException, (sample_session\<lparr> system_id := PStr ''S1'' \<rparr>)) \<and>
   \<not> truthy (py_or PNone (system_id sample_session)) \<and>
   get_devices sample_lib (\<lambda>r. Inr (PDict [(''code'', PInt 0), (''data'', PStr (req_url r))])) sample_session PNone = (Inl missing_system_id, sample_session) \<and>
   get_system_summary sample_lib (\<lambda>r. Inr (PDict [(''code'', PInt 0), (''data'', PStr (req_url r))])) sample_session (PStr []) = Inl missing_system_id"
proof -
  have t: "truthy (PStr ''S2'')" and f: "\<not> truthy PNone" and e: "\<not> truthy (PStr [])"
    and n: "\<not> truthy (py_or PNone (system_id sample_session))"
    and n': "\<not> truthy (py_or (PStr []) (system_id sample_session))"
    and c: "truthy (system_id (sample_session\<lparr> system_id := PStr ''S1'' \<rparr>))" and ci: "truthy (inverter_serial_number (sample_session\<lparr> system_id := PStr ''S1'', inverter_serial_number := PStr ''INV1'' \<rparr>))"
    and ni: "\<not> truthy (inverter_serial_number (sample_session\<lparr> system_id := PStr ''S1'' \<rparr>))"
    by (simp_all add: py_or_def sample_session_def init_def)
  have base: "base_url sample_session = ''https://api-aus.sigencloud.com''"
    by (simp add: sample_session_def init_def rstrip_slash_def)
  note ev = prepare_request_fields parse_data_field_def base sample_lib_def sample_loads_def py_or_def
  from t c context_resolution [OF refl refl, where dev_arg = PNone and arg = "PStr ''S2''" and s = "(sample_session\<lparr> system_id := PStr ''S1'' \<rparr>)" and lib = sample_lib and start_time = None and end_time = None and interval = PNone
      and http = "(\<lambda>r. Inr (PDict [(''code'', PInt 0), (''data'', PStr (req_url r))]))"]
  have a1: "get_system_summary sample_lib (\<lambda>r. Inr (PDict [(''code'', PInt 0), (''data'', PStr (req_url r))])) (sample_session\<lparr> system_id := PStr ''S1'' \<rparr>) (PStr ''S2'')
     = Inr (PStr ''https://api-aus.sigencloud.com/openapi/systems/S2/summary'')"
    by (simp add: ev)
  from f c context_resolution [OF refl refl, where dev_arg = PNone and arg = PNone and s = "(sample_session\<lparr> system_id := PStr ''S1'' \<rparr>)" and lib = sample_lib and start_time = None and end_time = None and interval = PNone
      and http = "(\<lambda>r. Inr (PDict [(''code'', PInt 0), (''data'', PStr (req_url r))]))"]
  have a2: "get_system_summary sample_lib (\<lambda>r. Inr (PDict [(''code'', PInt 0), (''data'', PStr (req_url r))])) (sample_session\<lparr> system_id := PStr ''S1'' \<rparr>) PNone
     = Inr (PStr ''https://api-aus.sigencloud.com/openapi/systems/S1/summary'')"
    by (simp add: ev)
  from f c ci context_resolution [OF refl refl, where arg = PNone and dev_arg = PNone and s = "(sample_session\<lparr> system_id := PStr ''S1'', inverter_serial_number := PStr ''INV1'' \<rparr>)"
      and lib = sample_lib and start_time = None and end_time = None and interval = PNone and http = "(\<lambda>r. Inr (PDict [(''code'', PInt 0), (''data'', PStr (req_url r))]))"]
  have a3: "get_device_realtime_info sample_lib (\<lambda>r. Inr (PDict [(''code'', PInt 0), (''data'', PStr (req_url r))])) (sample_session\<lparr> system_id := PStr ''S1'', inverter_serial_number := PStr ''INV1'' \<rparr>) PNone PNone
     = Inr (PStr ''https://api-aus.sigencloud.com/openapi/systems/S1/devices/INV1/realtimeInfo'')"
    by (simp add: ev)
  from f c ci context_resolution [OF refl refl, where arg = PNone and dev_arg = "PStr ''INV2''" and s = "(sample_session\<lparr> system_id := PStr ''S1'', inverter_serial_number := PStr ''INV1'' \<rparr>)"
      and lib = sample_lib and start_time = None and end_time = None and interval = PNone and http = "(\<lambda>r. Inr (PDict [(''code'', PInt 0), (''data'', PStr (req_url r))]))"]
  have a4: "get_device_realtime_info sample_lib (\<lambda>r. Inr (PDict [(''code'', PInt 0), (''data'', PStr (req_url r))])) (sample_session\<lparr> system_id := PStr ''S1'', inverter_serial_number := PStr ''INV1'' \<rparr>) (PStr ''INV2'') PNone
     = Inr (PStr ''https://api-aus.sigencloud.com/openapi/systems/S1/devices/INV2/realtimeInfo'')"
    by (simp add: ev)
  from f c ni context_resolution [OF refl refl, where arg = PNone and dev_arg = PNone and s = "(sample_session\<lparr> system_id := PStr ''S1'' \<rparr>)"
      and lib = sample_lib and start_time = None and end_time = None and interval = PNone and http = "(\<lambda>r. Inr (PDict [(''code'', PInt 0), (''data'', PStr (req_url r))]))"]
  have a5: "get_device_realtime_info sample_lib (\<lambda>r. Inr (PDict [(''code'', PInt 0), (''data'', PStr (req_url r))])) (sample_session\<lparr> system_id := PStr ''S1'' \<rparr>) PNone PNone = Inl missing_device_serial"
    by (simp add: py_or_def)
  from t c context_resolution [OF refl refl, where dev_arg = PNone and arg = "PStr ''S2''" and s = "(sample_session\<lparr> system_id := PStr ''S1'' \<rparr>)"
      and lib = sample_lib and start_time = None and end_time = None and interval = PNone
      and http = "(\<lambda>r. Inr (PDict [(''code'', PInt 0), (''data'', PList [PDict [(''url'', PStr (req_url r))]])]))"]
  have d1: "get_devices sample_lib (\<lambda>r. Inr (PDict [(''code'', PInt 0), (''data'', PList [PDict [(''url'', PStr (req_url r))]])])) (sample_session\<lparr> system_id := PStr ''S1'' \<rparr>) (PStr ''S2'')
     = (Inr (PList [PDict [(''url'', PStr ''https://api-aus.sigencloud.com/openapi/system/S2/devices'')]]),
        (sample_session\<lparr> system_id := PStr ''S1'' \<rparr>))"
    by (simp add: ev decode_device_def cache_inverter_def)
  from f c context_resolution [OF refl refl, where dev_arg = PNone and arg = PNone and s = "(sample_session\<lparr> system_id := PStr ''S1'' \<rparr>)"
      and lib = sample_lib and start_time = None and end_time = None and interval = PNone
      and http = "(\<lambda>r. Inr (PDict [(''code'', PInt 0), (''data'', PList [PDict [(''url'', PStr (req_url r))]])]))"]
  have d2: "get_devices sample_lib (\<lambda>r. Inr (PDict [(''code'', PInt 0), (''data'', PList [PDict [(''url'', PStr (req_url r))]])])) (sample_session\<lparr> system_id := PStr ''S1'' \<rparr>) PNone
     = (Inr (PList [PDict [(''url'', PStr ''https://api-aus.sigencloud.com/openapi/system/S1/devices'')]]),
        (sample_session\<lparr> system_id := PStr ''S1'' \<rparr>))"
    by (simp add: ev decode_device_def cache_inverter_def)
  from f c context_resolution [OF refl refl, where dev_arg = PNone and arg = PNone and s = "(sample_session\<lparr> system_id := PStr ''S1'' \<rparr>)"
      and lib = sample_lib and start_time = None and end_time = None and interval = PNone
      and http = "\<lambda>r. Inl RequestException"]
  have d3: "get_devices sample_lib (\<lambda>r. Inl RequestException) (sample_session\<lparr> system_id := PStr ''S1'' \<rparr>) PNone = (Inl RequestException, (sample_session\<lparr> system_id := PStr ''S1'' \<rparr>))"
    by (simp add: ev)
  from n context_resolution [OF refl refl, where dev_arg = PNone and arg = PNone and s = sample_session and lib = sample_lib and start_time = None and end_time = None and interval = PNone
      and http = "(\<lambda>r. Inr (PDict [(''code'', PInt 0), (''data'', PStr (req_url r))]))"]
  have a6: "get_devices sample_lib (\<lambda>r. Inr (PDict [(''code'', PInt 0), (''data'', PStr (req_url r))])) sample_session PNone = (Inl missing_system_id, sample_session)"
    by (simp add: py_or_def)
  from n' context_resolution [OF refl refl, where dev_arg = PNone and arg = "PStr []" and s = sample_session and lib = sample_lib
      and http = "(\<lambda>r. Inr (PDict [(''code'', PInt 0), (''data'', PStr (req_url r))]))"]
  have a7: "get_system_summary sample_lib (\<lambda>r. Inr (PDict [(''code'', PInt 0), (''data'', PStr (req_url r))])) sample_session (PStr []) = Inl missing_system_id"
    by (simp add: py_or_def)
  from t f n a1 a2 a3 a4 a5 d1 d2 d3 a6 a7 show ?thesis by blast
qed

section \<open>The query parameters of the history\<close>

lemma div_mod_eq:
  fixes a b n :: nat
  assumes "a div n = b div n" "a mod n = b mod n"
  shows "a = b"
proof -
  have "a = a div n * n + a mod n" by simp
  also have "\<dots> = b div n * n + b mod n" by (simp only: assms)
  also have "\<dots> = b" by simp
  finally show ?thesis .
qed

lemma digit_inj: "digit a = digit b \<Longrightarrow> a mod 10 = b mod 10"
proof -
  have d: "distinct ''0123456789''" by simp
  have l: "length ''0123456789'' = 10" by simp
  assume "digit a = digit b"
  then have "''0123456789'' ! (a mod 10) = ''0123456789'' ! (b mod 10)" by (simp add: digit_def)
  with nth_eq_iff_index_eq [OF d, of "a mod 10" "b mod 10"] l show ?thesis by simp
qed

lemma pad2_inj: "pad2 a = pad2 b \<Longrightarrow> a < 100 \<Longrightarrow> b < 100 \<Longrightarrow> a = b"
proof -
  assume a: "a < 100" and b: "b < 100" and e: "pad2 a = pad2 b"
  from e have "digit (a div 10) = digit (b div 10)" "digit a = digit b" by (simp_all add: pad2_def)
  then have hi: "(a div 10) mod 10 = (b div 10) mod 10" and lo: "a mod 10 = b mod 10"
    by (auto dest: digit_inj)
  from a b have "a div 10 < 10" "b div 10 < 10" by auto
  with hi have "a div 10 = b div 10" by simp
  from this lo show ?thesis by (rule div_mod_eq)
qed

lemma length_pad2 [simp]: "length (pad2 n) = 2" by (simp add: pad2_def)
lemma length_pad4 [simp]: "length (pad4 n) = 4" by (simp add: pad4_def)
lemma length_pad6 [simp]: "length (pad6 n) = 6" by (simp add: pad6_def)

lemma pad4_inj: "pad4 a = pad4 b \<Longrightarrow> a < 10000 \<Longrightarrow> b < 10000 \<Longrightarrow> a = b"
proof -
  assume a: "a < 10000" and b: "b < 10000" and e: "pad4 a = pad4 b"
  from e have hi: "pad2 (a div 100) = pad2 (b div 100)" and lo: "pad2 (a mod 100) = pad2 (b mod 100)"
    by (simp_all add: pad4_def)
  from a b have "a div 100 < 100" "b div 100 < 100" by auto
  with hi have "a div 100 = b div 100" by (rule pad2_inj)
  moreover from lo have "a mod 100 = b mod 100" by (rule pad2_inj) simp_all
  ultimately show ?thesis by (rule div_mod_eq)
qed

lemma pad6_inj: "pad6 a = pad6 b \<Longrightarrow> a < 1000000 \<Longrightarrow> b < 1000000 \<Longrightarrow> a = b"
proof -
  assume a: "a < 1000000" and b: "b < 1000000" and e: "pad6 a = pad6 b"
  from e have hi: "pad2 (a div 10000) = pad2 (b div 10000)"
    and lo: "pad4 (a mod 10000) = pad4 (b mod 10000)"
    by (simp_all add: pad6_def)
  from a b have "a div 10000 < 100" "b div 10000 < 100" by auto
  with hi have "a div 10000 = b div 10000" by (rule pad2_inj)
  moreover from lo have "a mod 10000 = b mod 10000" by (rule pad4_inj) simp_all
  ultimately show ?thesis by (rule div_mod_eq)
qed

lemma iso_offset_parts:
  "iso_offset off =
     (if off < 0 then ''-'' else ''+'') @ pad2 (nat \<bar>off\<bar> div 3600) @ '':'' @
     pad2 (nat \<bar>off\<bar> div 60 mod 60) @
     (if nat \<bar>off\<bar> mod 60 = 0 then [] else '':'' @ pad2 (nat \<bar>off\<bar> mod 60))"
  unfolding iso_offset_def Let_def ..

lemma hms_eq:
  fixes x y :: nat
  assumes "x div 3600 = y div 3600" "x div 60 mod 60 = y div 60 mod 60" "x mod 60 = y mod 60"
  shows "x = y"
proof -
  have "z div 60 div 60 = z div 3600" for z :: nat by (simp flip: div_mult2_eq)
  with assms(1) have "x div 60 div 60 = y div 60 div 60" by simp
  from this assms(2) have "x div 60 = y div 60" by (rule div_mod_eq)
  from this assms(3) show ?thesis by (rule div_mod_eq)
qed

lemma iso_offset_inj:
  assumes "iso_offset a = iso_offset b" "- 86400 < a" "a < 86400" "- 86400 < b" "b < 86400"
  shows "a = b"
proof -
  define x y where "x = nat \<bar>a\<bar>" and "y = nat \<bar>b\<bar>"
  have ia: "iso_offset a = (if a < 0 then ''-'' else ''+'') @ pad2 (x div 3600) @ '':'' @
     pad2 (x div 60 mod 60) @ (if x mod 60 = 0 then [] else '':'' @ pad2 (x mod 60))"
    by (simp add: iso_offset_parts x_def y_def)
  have ib: "iso_offset b = (if b < 0 then ''-'' else ''+'') @ pad2 (y div 3600) @ '':'' @
     pad2 (y div 60 mod 60) @ (if y mod 60 = 0 then [] else '':'' @ pad2 (y mod 60))"
    by (simp add: iso_offset_parts x_def y_def)
  from assms(1) have e: "(if a < 0 then ''-'' else ''+'') @ pad2 (x div 3600) @ '':'' @
     pad2 (x div 60 mod 60) @ (if x mod 60 = 0 then [] else '':'' @ pad2 (x mod 60))
   = (if b < 0 then ''-'' else ''+'') @ pad2 (y div 3600) @ '':'' @
     pad2 (y div 60 mod 60) @ (if y mod 60 = 0 then [] else '':'' @ pad2 (y mod 60))"
    by (simp only: ia ib)
  have sign: "(a < 0) = (b < 0)"
    using e by (cases "a < 0"; cases "b < 0") simp_all
  with e have e1: "pad2 (x div 3600) @ '':'' @
     pad2 (x div 60 mod 60) @ (if x mod 60 = 0 then [] else '':'' @ pad2 (x mod 60))
   = pad2 (y div 3600) @ '':'' @
     pad2 (y div 60 mod 60) @ (if y mod 60 = 0 then [] else '':'' @ pad2 (y mod 60))"
    by (cases "a < 0") simp_all
  then have h: "pad2 (x div 3600) = pad2 (y div 3600)"
    and e2: "pad2 (x div 60 mod 60) @ (if x mod 60 = 0 then [] else '':'' @ pad2 (x mod 60))
        = pad2 (y div 60 mod 60) @ (if y mod 60 = 0 then [] else '':'' @ pad2 (y mod 60))"
    by simp_all
  from e2 have m: "pad2 (x div 60 mod 60) = pad2 (y div 60 mod 60)"
    and e3: "(if x mod 60 = 0 then [] else '':'' @ pad2 (x mod 60))
        = (if y mod 60 = 0 then [] else '':'' @ pad2 (y mod 60))"
    by simp_all
  from assms(2-5) have "x div 3600 < 100" "y div 3600 < 100" by (auto simp: x_def y_def)
  with h have eh: "x div 3600 = y div 3600" by (rule pad2_inj)
  have bm: "x div 60 mod 60 < 100" "y div 60 mod 60 < 100"
    by (rule less_trans [OF mod_less_divisor]; simp)+
  from m bm have em: "x div 60 mod 60 = y div 60 mod 60" by (rule pad2_inj)
  have bs: "x mod 60 < 100" "y mod 60 < 100"
    by (rule less_trans [OF mod_less_divisor]; simp)+
  have es: "x mod 60 = y mod 60"
  proof (cases "x mod 60 = 0")
    case True
    with e3 show ?thesis by (cases "y mod 60 = 0") simp_all
  next
    case False
    with e3 have ny: "y mod 60 \<noteq> 0" by (cases "y mod 60 = 0") simp_all
    with False e3 have "pad2 (x mod 60) = pad2 (y mod 60)" by simp
    from this bs show ?thesis by (rule pad2_inj)
  qed
  from eh em es have "x = y" by (rule hms_eq)
  with sign show ?thesis by (auto simp: x_def y_def)
qed


lemma length_iso_seconds: "length (iso_seconds d) = 19"
  by (simp add: iso_seconds_def)

lemma length_iso_fraction: "length (iso_fraction us) = (if us = 0 then 0 else 7)"
  by (simp add: iso_fraction_def)

lemma length_iso_offset: "length (iso_offset m) = 6 \<or> length (iso_offset m) = 9"
  by (simp add: iso_offset_parts)

lemma length_iso_utcoffset:
  "length (iso_utcoffset off) = 0 \<and> off = None \<or>
   (length (iso_utcoffset off) = 6 \<or> length (iso_utcoffset off) = 9) \<and> off \<noteq> None"
  using length_iso_offset by (cases off) (auto simp: iso_utcoffset_def)

lemma iso_seconds_inj:
  assumes "iso_seconds d = iso_seconds d'" "valid_datetime d" "valid_datetime d'"
  shows "year d = year d' \<and> month d = month d' \<and> day d = day d' \<and> hour d = hour d' \<and>
         minute d = minute d' \<and> second d = second d'"
proof -
  from assms(1) have y: "pad4 (year d) = pad4 (year d')" and mo: "pad2 (month d) = pad2 (month d')"
    and da: "pad2 (day d) = pad2 (day d')" and h: "pad2 (hour d) = pad2 (hour d')"
    and mi: "pad2 (minute d) = pad2 (minute d')" and se: "pad2 (second d) = pad2 (second d')"
    by (simp_all add: iso_seconds_def)
  from assms(2,3) have b: "year d < 10000" "year d' < 10000" "month d < 100" "month d' < 100"
    "day d < 100" "day d' < 100" "hour d < 100" "hour d' < 100" "minute d < 100" "minute d' < 100"
    "second d < 100" "second d' < 100"
    by (simp_all add: valid_datetime_def)
  from y b(1,2) have "year d = year d'" by (rule pad4_inj)
  moreover from mo b(3,4) have "month d = month d'" by (rule pad2_inj)
  moreover from da b(5,6) have "day d = day d'" by (rule pad2_inj)
  moreover from h b(7,8) have "hour d = hour d'" by (rule pad2_inj)
  moreover from mi b(9,10) have "minute d = minute d'" by (rule pad2_inj)
  moreover from se b(11,12) have "second d = second d'" by (rule pad2_inj)
  ultimately show ?thesis by simp
qed

lemma iso_fraction_inj:
  assumes "iso_fraction a = iso_fraction b" "a < 1000000" "b < 1000000"
  shows "a = b"
proof (cases "a = 0")
  case True
  with assms(1) show ?thesis by (cases "b = 0") (simp_all add: iso_fraction_def)
next
  case False
  with assms(1) have nb: "b \<noteq> 0" by (cases "b = 0") (simp_all add: iso_fraction_def)
  with False assms(1) have "pad6 a = pad6 b" by (simp add: iso_fraction_def)
  from this assms(2,3) show ?thesis by (rule pad6_inj)
qed

lemma iso_utcoffset_inj:
  assumes "iso_utcoffset a = iso_utcoffset b"
    and "case a of None \<Rightarrow> True | Some m \<Rightarrow> - 86400 < m \<and> m < 86400"
    and "case b of None \<Rightarrow> True | Some m \<Rightarrow> - 86400 < m \<and> m < 86400"
  shows "a = b"
proof (cases a)
  case None
  with assms(1) length_iso_utcoffset [of b] show ?thesis by (auto simp: iso_utcoffset_def)
next
  case (Some m)
  with assms(1) length_iso_utcoffset [of a] obtain m' where b: "b = Some m'"
    by (cases b) (auto simp: iso_utcoffset_def)
  with Some assms(1) have "iso_offset m = iso_offset m'" by (simp add: iso_utcoffset_def)
  with Some b assms(2,3) have "m = m'" by (intro iso_offset_inj) simp_all
  with Some b show ?thesis by simp
qed

lemma py_isoformat_inj:
  assumes "py_isoformat d = py_isoformat d'" "valid_datetime d" "valid_datetime d'"
  shows "d = d'"
proof -
  from assms(1) have fixed: "iso_seconds d = iso_seconds d'"
    and tail: "iso_fraction (microsecond d) @ iso_utcoffset (utcoffset d)
             = iso_fraction (microsecond d') @ iso_utcoffset (utcoffset d')"
    by (simp_all add: py_isoformat_def length_iso_seconds)
  from tail have "length (iso_fraction (microsecond d)) + length (iso_utcoffset (utcoffset d))
      = length (iso_fraction (microsecond d')) + length (iso_utcoffset (utcoffset d'))"
    by (metis length_append)
  with length_iso_utcoffset [of "utcoffset d"] length_iso_utcoffset [of "utcoffset d'"]
  have "length (iso_fraction (microsecond d)) = length (iso_fraction (microsecond d'))"
    by (auto simp: length_iso_fraction split: if_splits)
  with tail have fr: "iso_fraction (microsecond d) = iso_fraction (microsecond d')"
    and off: "iso_utcoffset (utcoffset d) = iso_utcoffset (utcoffset d')"
    by simp_all
  from assms(2,3) have "microsecond d < 1000000" "microsecond d' < 1000000"
    by (simp_all add: valid_datetime_def)
  with fr have us: "microsecond d = microsecond d'" by (rule iso_fraction_inj)
  from assms(2,3) have "case utcoffset d of None \<Rightarrow> True | Some m \<Rightarrow> - 86400 < m \<and> m < 86400"
    "case utcoffset d' of None \<Rightarrow> True | Some m \<Rightarrow> - 86400 < m \<and> m < 86400"
    by (simp_all add: valid_datetime_def)
  with off have tz: "utcoffset d = utcoffset d'" by (rule iso_utcoffset_inj)
  from iso_seconds_inj [OF fixed assms(2,3)] us tz show ?thesis by simp
qed

lemma py_isoformat_not_empty: "py_isoformat t \<noteq> []"
  using length_iso_seconds [of t] by (auto simp: py_isoformat_def)

lemma history_params_list:
  "history_params start_time end_time interval =
     (case start_time of None \<Rightarrow> [] | Some t \<Rightarrow> [(''startTime'', PStr (py_isoformat t))]) @
     (case end_time of None \<Rightarrow> [] | Some t \<Rightarrow> [(''endTime'', PStr (py_isoformat t))]) @
     (if truthy interval then [(''interval'', interval)] else [])"
  by (simp add: history_params_def split: option.split)

text \<open>
  Claim C8, as the specification states it, fails: a naive \<^verbatim>\<open>datetime\<close> is a time
  \<^verbatim>\<open>get_system_history\<close> accepts, and the text sent for it has no timezone. The
  server here answers with the query parameters it was sent.
\<close>

theorem get_system_history_naive_time_counterexample:
  "get_system_history sample_lib
     (\<lambda>r. Inr (PDict [(''code'', PInt 0), (''data'', PDict (case req_params r of None \<Rightarrow> [] | Some ps \<Rightarrow> ps))]))
     (sample_session\<lparr> system_id := PStr ''S1'' \<rparr>) PNone
     (Some \<lparr> year = 2025, month = 10, day = 1, hour = 0, minute = 0, second = 0, microsecond = 0, utcoffset = None \<rparr>)
     None PNone
   = Inr (PDict [(''startTime'', PStr ''2025-10-01T00:00:00'')])"
  by (simp add: get_system_history_def make_request_def prepare_request_def Let_def no_kwargs_def
      parse_data_field_def py_or_def history_params_list py_isoformat_def iso_seconds_def
      iso_fraction_def iso_utcoffset_def pad4_def pad2_def digit_def)

text \<open>
  Claim C8, amended. \<^verbatim>\<open>get_system_history\<close> sends a query parameter for each optional
  argument that is given and for no other: an argument left out has no key at all, and no
  value sent is \<^verbatim>\<open>None\<close> or the empty string. A time is sent as the text of
  \<^verbatim>\<open>isoformat()\<close>: ISO 8601, with the offset from UTC when the \<^verbatim>\<open>datetime\<close> given
  is timezone-aware and with no timezone when it is naive; two valid values of
  \<^verbatim>\<open>datetime\<close> with the same text are equal, so the text can be parsed back.
\<close>

theorem history_params_supplied_only:
  "history_params start_time end_time interval =
     (case start_time of None \<Rightarrow> [] | Some t \<Rightarrow> [(''startTime'', PStr (py_isoformat t))]) @
     (case end_time of None \<Rightarrow> [] | Some t \<Rightarrow> [(''endTime'', PStr (py_isoformat t))]) @
     (if truthy interval then [(''interval'', interval)] else []) \<and>
   (start_time = None \<longrightarrow> ''startTime'' \<notin> fst ` set (history_params start_time end_time interval)) \<and>
   (end_time = None \<longrightarrow> ''endTime'' \<notin> fst ` set (history_params start_time end_time interval)) \<and>
   (\<not> truthy interval \<longrightarrow> ''interval'' \<notin> fst ` set (history_params start_time end_time interval)) \<and>
   (\<forall>kv\<in>set (history_params start_time end_time interval). snd kv \<noteq> PNone \<and> snd kv \<noteq> PStr []) \<and>
   (truthy (py_or arg (system_id s)) \<longrightarrow>
      req_params (prepare_request lib s ''GET''
          (''/openapi/systems/'' @ py_str lib (py_or arg (system_id s)) @ ''/history'')
          (no_kwargs\<lparr> kw_params := Some (history_params start_time end_time interval) \<rparr>))
        = Some (history_params start_time end_time interval) \<and>
      get_system_history lib http s arg start_time end_time interval =
        (case http (prepare_request lib s ''GET''
                 (''/openapi/systems/'' @ py_str lib (py_or arg (system_id s)) @ ''/history'')
                 (no_kwargs\<lparr> kw_params := Some (history_params start_time end_time interval) \<rparr>)) of
           Inl e \<Rightarrow> Inl e | Inr response \<Rightarrow> parse_data_field lib response)) \<and>
   (utcoffset t = None \<longrightarrow> py_isoformat t = iso_seconds t @ iso_fraction (microsecond t)) \<and>
   (utcoffset t = Some m \<longrightarrow>
      py_isoformat t = iso_seconds t @ iso_fraction (microsecond t) @ iso_offset m) \<and>
   (valid_datetime t \<and> valid_datetime t' \<and> py_isoformat t = py_isoformat t' \<longrightarrow> t = t')"
proof -
  note l = history_params_list [of start_time end_time interval]
  have a: "start_time = None \<longrightarrow> ''startTime'' \<notin> fst ` set (history_params start_time end_time interval)"
    by (auto simp: history_params_list split: option.splits if_splits)
  have b: "end_time = None \<longrightarrow> ''endTime'' \<notin> fst ` set (history_params start_time end_time interval)"
    by (auto simp: history_params_list split: option.splits if_splits)
  have c: "\<not> truthy interval \<longrightarrow> ''interval'' \<notin> fst ` set (history_params start_time end_time interval)"
    by (auto simp: history_params_list split: option.splits if_splits)
  have v: "\<forall>kv\<in>set (history_params start_time end_time interval). snd kv \<noteq> PNone \<and> snd kv \<noteq> PStr []"
    by (auto simp: history_params_list py_isoformat_not_empty split: option.splits if_splits)
  have f: "truthy (py_or arg (system_id s)) \<longrightarrow>
      req_params (prepare_request lib s ''GET''
          (''/openapi/systems/'' @ py_str lib (py_or arg (system_id s)) @ ''/history'')
          (no_kwargs\<lparr> kw_params := Some (history_params start_time end_time interval) \<rparr>))
        = Some (history_params start_time end_time interval) \<and>
      get_system_history lib http s arg start_time end_time interval =
        (case http (prepare_request lib s ''GET''
                 (''/openapi/systems/'' @ py_str lib (py_or arg (system_id s)) @ ''/history'')
                 (no_kwargs\<lparr> kw_params := Some (history_params start_time end_time interval) \<rparr>)) of
           Inl e \<Rightarrow> Inl e | Inr response \<Rightarrow> parse_data_field lib response)"
    by (simp add: prepare_request_fields get_system_history_def make_request_def)
  have n: "utcoffset t = None \<longrightarrow> py_isoformat t = iso_seconds t @ iso_fraction (microsecond t)"
    by (simp add: py_isoformat_def iso_utcoffset_def)
  have w: "utcoffset t = Some m \<longrightarrow>
      py_isoformat t = iso_seconds t @ iso_fraction (microsecond t) @ iso_offset m"
    by (simp add: py_isoformat_def iso_utcoffset_def)
  have r: "valid_datetime t \<and> valid_datetime t' \<and> py_isoformat t = py_isoformat t' \<longrightarrow> t = t'"
    using py_isoformat_inj [of t t'] by blast
  from l a b c v f n w r show ?thesis by blast
qed

theorem history_params_supplied_only_witness:
  "history_params (Some sample_start) (Some sample_end) PNone
     = [(''startTime'', PStr ''2025-10-01T00:00:00+10:00''), (''endTime'', PStr ''2025-10-02T00:00:00+10:00'')] \<and>
   \<not> truthy PNone \<and>
   ''interval'' \<notin> fst ` set (history_params (Some sample_start) (Some sample_end) PNone) \<and>
   history_params None None (PStr ''day'') = [(''interval'', PStr ''day'')] \<and>
   ''startTime'' \<notin> fst ` set (history_params None None (PStr ''day'')) \<and>
   utcoffset sample_start = Some 36000 \<and>
   py_isoformat sample_start = iso_seconds sample_start @ iso_fraction (microsecond sample_start) @ iso_offset 36000 \<and>
   utcoffset sample_naive = None \<and>
   py_isoformat sample_naive = iso_seconds sample_naive @ iso_fraction (microsecond sample_naive) \<and>
   valid_datetime sample_start \<and> valid_datetime sample_end \<and>
   py_isoformat sample_start \<noteq> py_isoformat sample_end \<and>
   truthy (py_or PNone (system_id (sample_session\<lparr> system_id := PStr ''S1'' \<rparr>))) \<and>
   get_system_history sample_lib (\<lambda>r. Inr (PDict [(''code'', PInt 0), (''data'', PDict (case req_params r of None \<Rightarrow> [] | Some ps \<Rightarrow> ps))])) (sample_session\<lparr> system_id := PStr ''S1'' \<rparr>) PNone (Some sample_start) (Some sample_end) PNone
     = Inr (PDict [(''startTime'', PStr ''2025-10-01T00:00:00+10:00''), (''endTime'', PStr ''2025-10-02T00:00:00+10:00'')])"
proof -
  note iso = py_isoformat_def iso_seconds_def iso_fraction_def iso_utcoffset_def iso_offset_def
    pad4_def pad2_def digit_def sample_start_def sample_end_def
  have omitted: "\<not> truthy PNone" by simp
  have aware: "utcoffset sample_start = Some 36000" by (simp add: sample_start_def)
  have naive: "utcoffset sample_naive = None" by (simp add: sample_naive_def)
  have valid: "valid_datetime sample_start" "valid_datetime sample_end"
    by (simp_all add: valid_datetime_def sample_start_def sample_end_def)
  have differ: "sample_start \<noteq> sample_end" by (simp add: sample_start_def sample_end_def)
  have id: "truthy (py_or PNone (system_id (sample_session\<lparr> system_id := PStr ''S1'' \<rparr>)))" by (simp add: py_or_def)
  note inst = history_params_supplied_only [where start_time = "Some sample_start"
      and end_time = "Some sample_end" and interval = PNone and t = sample_start and t' = sample_end
      and m = 36000 and lib = sample_lib and arg = PNone and s = "(sample_session\<lparr> system_id := PStr ''S1'' \<rparr>)" and http = "(\<lambda>r. Inr (PDict [(''code'', PInt 0), (''data'', PDict (case req_params r of None \<Rightarrow> [] | Some ps \<Rightarrow> ps))]))"]
  from inst have a: "history_params (Some sample_start) (Some sample_end) PNone
     = [(''startTime'', PStr ''2025-10-01T00:00:00+10:00''), (''endTime'', PStr ''2025-10-02T00:00:00+10:00'')]"
    by (simp add: iso)
  from inst omitted have b: "''interval'' \<notin> fst ` set (history_params (Some sample_start) (Some sample_end) PNone)"
    by blast
  note inst' = history_params_supplied_only [where start_time = None and end_time = None
      and interval = "PStr ''day''" and t = sample_naive]
  from inst' have c: "history_params None None (PStr ''day'') = [(''interval'', PStr ''day'')]"
    by simp
  from inst' have d: "''startTime'' \<notin> fst ` set (history_params None None (PStr ''day''))"
    by blast
  from inst aware have e: "py_isoformat sample_start
      = iso_seconds sample_start @ iso_fraction (microsecond sample_start) @ iso_offset 36000"
    by blast
  from inst' naive have f: "py_isoformat sample_naive
      = iso_seconds sample_naive @ iso_fraction (microsecond sample_naive)"
    by blast
  from inst valid differ have g: "py_isoformat sample_start \<noteq> py_isoformat sample_end"
    by blast
  from inst id a have h: "get_system_history sample_lib (\<lambda>r. Inr (PDict [(''code'', PInt 0), (''data'', PDict (case req_params r of None \<Rightarrow> [] | Some ps \<Rightarrow> ps))])) (sample_session\<lparr> system_id := PStr ''S1'' \<rparr>) PNone (Some sample_start) (Some sample_end) PNone
     = Inr (PDict [(''startTime'', PStr ''2025-10-01T00:00:00+10:00''), (''endTime'', PStr ''2025-10-02T00:00:00+10:00'')])"
    by (simp add: prepare_request_fields parse_data_field_def)
  from a omitted b c d aware e naive f valid g id h show ?thesis by blast
qed

section \<open>The power flow\<close>

lemma dict_set_new: "k \<notin> fst ` set kvs \<Longrightarrow> dict_set kvs k v = kvs @ [(k, v)]"
  by (induction kvs) auto

lemma py_float_errors:
  "py_float lib v = Inl e \<Longrightarrow> e = OverflowError \<or> value_or_type_error e"
  by (cases v) (auto split: if_splits option.splits)

lemma power_flow_loop_filters:
  "\<forall>kv\<in>set items. py_float lib (snd kv) \<noteq> Inl OverflowError \<Longrightarrow>
   distinct (map fst power_flow @ map fst items) \<Longrightarrow>
   power_flow_loop lib items power_flow =
     Inr (power_flow @
          map (\<lambda>kv. (fst kv, case py_float lib (snd kv) of Inr f \<Rightarrow> PFloat f | Inl e \<Rightarrow> snd kv))
            (filter (\<lambda>kv. str_contains ''power'' (py_lower (fst kv)) \<or>
                          str_contains ''watt'' (py_lower (fst kv))) items))"
proof (induction items arbitrary: power_flow)
  case Nil
  then show ?case by simp
next
  case (Cons kv items)
  obtain key val where kv: "kv = (key, val)" by (cases kv)
  from Cons.prems(2) kv have new: "key \<notin> fst ` set power_flow" by auto
  from Cons.prems(1) kv have ok: "py_float lib val \<noteq> Inl OverflowError"
    and rest: "\<forall>kv\<in>set items. py_float lib (snd kv) \<noteq> Inl OverflowError" by auto
  show ?case
  proof (cases "str_contains ''power'' (py_lower key) \<or> str_contains ''watt'' (py_lower key)")
    case False
    from Cons.prems(2) kv have "distinct (map fst power_flow @ map fst items)" by auto
    from Cons.IH [OF rest this] False kv show ?thesis by simp
  next
    case True
    have d: "distinct (map fst (power_flow @ [(key, x)]) @ map fst items)" for x
      using Cons.prems(2) kv by auto
    show ?thesis
    proof (cases "py_float lib val")
      case (Inr f)
      from Cons.IH [OF rest d [of "PFloat f"]] True kv Inr new show ?thesis
        by (simp add: dict_set_new)
    next
      case (Inl e)
      with ok py_float_errors [OF Inl] have "value_or_type_error e" by auto
      with Cons.IH [OF rest d [of val]] True kv Inl new show ?thesis
        by (simp add: dict_set_new)
    qed
  qed
qed

lemma py_float_overflow:
  "py_float lib v = Inl OverflowError \<longleftrightarrow> (\<exists>i. v = PInt i \<and> \<bar>i\<bar> \<ge> 2 ^ 1024 - 2 ^ 970)"
  by (cases v) (auto split: option.splits)

lemma get_current_power_flow_filters:
  assumes "get_system_energy_flow lib http s arg = Inr (PDict items)"
    and "distinct (map fst items)"
    and "\<forall>kv\<in>set items. py_float lib (snd kv) \<noteq> Inl OverflowError"
  shows "get_current_power_flow lib http s arg =
     Inr (PDict
       (map (\<lambda>kv. (fst kv, case py_float lib (snd kv) of Inr f \<Rightarrow> PFloat f | Inl e \<Rightarrow> snd kv))
          (filter (\<lambda>kv. str_contains ''power'' (py_lower (fst kv)) \<or>
                        str_contains ''watt'' (py_lower (fst kv))) items)))"
  using assms(1) power_flow_loop_filters [OF assms(3), of "[]"] assms(2)
  by (simp add: get_current_power_flow_def py_items_def)

text \<open>
  Claim C9. \<^verbatim>\<open>get_current_power_flow\<close> keeps the entries whose key contains
  \<^verbatim>\<open>power\<close> or \<^verbatim>\<open>watt\<close> in any case, each value turned into a float where
  \<^verbatim>\<open>float()\<close> succeeds and kept where it raises \<^verbatim>\<open>ValueError\<close> or
  \<^verbatim>\<open>TypeError\<close> (\<open>get_current_power_flow_filters\<close>). The code departs from the claim
  where \<^verbatim>\<open>float()\<close> fails with \<^verbatim>\<open>OverflowError\<close>, which line 289 does not catch:
  for the energy flow \<^verbatim>\<open>{"pvPower": 10 ** 400}\<close> the value is not kept unchanged,
  the call raises \<^verbatim>\<open>OverflowError\<close>.
\<close>

theorem power_flow_overflow_escapes:
  "get_current_power_flow lib
     (\<lambda>r. Inr (PDict [(''code'', PInt 0), (''data'', PDict [(''pvPower'', PInt (10 ^ 400))])]))
     (sample_session\<lparr> system_id := PStr ''S1'' \<rparr>) PNone
   = Inl OverflowError"
  by (simp add: get_current_power_flow_def get_system_energy_flow_def make_request_def
      parse_data_field_def py_or_def py_items_def py_lower_def lower_char_def)

end
